theory Spec2Isabelle
  imports Main
begin

section \<open>Classes, values and errors\<close>

text \<open>
  A Python class is its name and the names of its proper ancestors in method
  resolution order; \<open>mro\<close> is what \<open>cls.mro()\<close> returns.
\<close>

datatype pyclass = PyClass (cname: string) (ancestors: "string list")

definition mro :: "pyclass \<Rightarrow> string list" where
  "mro c = cname c # ancestors c"

definition issubclass :: "pyclass \<Rightarrow> string \<Rightarrow> bool" where
  "issubclass c d = (d \<in> set (mro c))"

definition object_class :: pyclass where
  "object_class = PyClass ''object'' []"

definition int_class :: pyclass where
  "int_class = PyClass ''int'' [''object'']"

definition bool_class :: pyclass where
  "bool_class = PyClass ''bool'' [''int'', ''object'']"

definition str_class :: pyclass where
  "str_class = PyClass ''str'' [''basestring'', ''object'']"

definition unicode_class :: pyclass where
  "unicode_class = PyClass ''unicode'' [''basestring'', ''object'']"

definition list_class :: pyclass where
  "list_class = PyClass ''list'' [''object'']"

definition none_class :: pyclass where
  "none_class = PyClass ''NoneType'' [''object'']"

definition relation_class :: pyclass where
  "relation_class = PyClass ''OneToManyRelation'' [''object'']"

text \<open>
  Python values as far as the modelled code inspects them: their class (for
  \<open>isinstance\<close>), their truth value, and whether they provide \<open>__iter__\<close>
  (lists do; \<open>str\<close> and \<open>unicode\<close> do not in the Python 2 the package is
  written in). \<open>PObj c it\<close> is an instance of the class \<open>c\<close>, for example a document;
  \<open>it\<close> says whether the object provides \<open>__iter__\<close>.
\<close>

datatype pyval =
    PNone
  | PBool bool
  | PInt int
  | PStr string
  | PUni string
  | PList "pyval list"
  | PObj pyclass bool

fun type_of :: "pyval \<Rightarrow> pyclass" where
  "type_of PNone = none_class"
| "type_of (PBool b) = bool_class"
| "type_of (PInt n) = int_class"
| "type_of (PStr s) = str_class"
| "type_of (PUni s) = unicode_class"
| "type_of (PList xs) = list_class"
| "type_of (PObj c it) = c"

definition isinstance :: "pyval \<Rightarrow> string \<Rightarrow> bool" where
  "isinstance v d = issubclass (type_of v) d"

fun has_iter :: "pyval \<Rightarrow> bool" where
  "has_iter (PList xs) = True"
| "has_iter (PObj c it) = it"
| "has_iter v = False"

text \<open>
  Every exception the modelled code raises is a value of \<open>error\<close>; a fallible
  function returns \<open>error + 'a\<close> with \<open>Inl\<close> for the raise. A
  \<open>ValidationError\<close> carries what its message is formatted from: the name of the
  document class, the field and the value. A \<open>KeyError\<close> carries the keys its
  message names.
\<close>

datatype error =
    DataProcessorDoesNotExist
  | KeyError "string list"
  | TypeError
  | RuntimeError
  | IndexError
  | AttributeError
  | AssertionError
  | ValueError
  | ValidationError string string pyval

section \<open>Processor registries (backend_base.py)\<close>

text \<open>
  What a caller hands to \<open>ConverterManager._pick_processor\<close>: a class, or an
  instance of \<open>OneToManyRelation\<close> wrapping a document class (the two forms a
  schema declares; text references are answered by \<open>from_db\<close> before any lookup).
\<close>

datatype datatype_key = Class pyclass | Many pyclass

text \<open>
  \<open>ProcessorManager\<close>: the dictionary \<open>processors\<close>, keyed by class name, and
  the optional fallback \<open>default\<close>.
\<close>

record 'p manager =
  processors :: "string \<rightharpoonup> 'p"
  default_processor :: "'p option"

text \<open>
  \<open>ConverterManager._preprocess_key\<close>. \<open>issubclass(value, Document)\<close> on a
  \<open>OneToManyRelation\<close> instance answers False under the abstract-base-class
  metaclass of \<open>Document\<close>, so the second test is reached.
\<close>

fun preprocess_key :: "datatype_key \<Rightarrow> string" where
  "preprocess_key (Class c) = (if issubclass c ''Document'' then ''Document'' else cname c)"
| "preprocess_key (Many c) = ''OneToManyRelation''"

text \<open>
  \<open>ProcessorManager.get_processor\<close>: the preprocessed key is a class object, which
  is always true in a condition, so the lookup is \<open>self.processors[key]\<close> and a
  missing key is reported as \<open>DataProcessorDoesNotExist\<close>.
\<close>

definition get_processor :: "'p manager \<Rightarrow> datatype_key \<Rightarrow> error + 'p" where
  "get_processor m v =
     (case processors m (preprocess_key v) of
        Some p \<Rightarrow> Inr p
      | None \<Rightarrow> Inl DataProcessorDoesNotExist)"

text \<open>
  \<open>datatype.mro()\<close>, or \<open>type(datatype).mro()\<close> for an instance.
\<close>

fun bases_of :: "datatype_key \<Rightarrow> string list" where
  "bases_of (Class c) = mro c"
| "bases_of (Many c) = mro relation_class"

text \<open>
  The loop of \<open>_pick_processor\<close>: \<open>for base in bases\<close> with the body
  \<open>self.get_processor(datatype)\<close>. The loop variable is not used by the body.
\<close>

fun pick_loop :: "'p manager \<Rightarrow> datatype_key \<Rightarrow> string list \<Rightarrow> error + 'p" where
  "pick_loop m d [] = Inl DataProcessorDoesNotExist"
| "pick_loop m d (base # rest) =
     (case get_processor m d of
        Inr p \<Rightarrow> Inr p
      | Inl e \<Rightarrow> pick_loop m d rest)"

definition pick_processor :: "'p manager \<Rightarrow> datatype_key \<Rightarrow> error + 'p" where
  "pick_processor m d = pick_loop m d (bases_of d)"

lemma pick_loop_ignores_bases:
  "pick_loop m d bs = (if bs = [] then Inl DataProcessorDoesNotExist else get_processor m d)"
proof (induction bs)
  case Nil
  show ?case by simp
next
  case (Cons b bs)
  show ?case
  proof (cases "get_processor m d")
    case (Inl e)
    have "e = DataProcessorDoesNotExist"
      using Inl by (auto simp: get_processor_def split: option.splits)
    then show ?thesis using Inl Cons by simp
  next
    case (Inr p)
    then show ?thesis by simp
  qed
qed

lemma pick_processor_exact_only:
  "pick_processor m d = get_processor m d"
proof -
  have "bases_of d \<noteq> []" by (cases d) (simp_all add: mro_def)
  then show ?thesis by (simp add: pick_processor_def pick_loop_ignores_bases)
qed

lemma document_family_key:
  "issubclass c ''Document'' \<Longrightarrow> preprocess_key (Class c) = ''Document''"
  by simp

text \<open>
  C1. The claim: when no converter is registered for the exact type, resolution tries the
  type's ancestry, most specific first, before it reports a missing converter. Evaluated
  on the code with only \<open>int\<close> registered and \<open>bool\<close> requested: \<open>int\<close> is the
  second entry of the ancestry of \<open>bool\<close> and has a converter, yet the lookup fails,
  because every round of the loop asks for \<open>bool\<close> again.
\<close>

theorem pick_processor_skips_ancestry:
  "bases_of (Class bool_class) = [''bool'', ''int'', ''object''] \<and>
   get_processor \<lparr>processors = [''int'' \<mapsto> (1::nat)], default_processor = None\<rparr>
     (Class int_class) = Inr 1 \<and>
   pick_processor \<lparr>processors = [''int'' \<mapsto> (1::nat)], default_processor = None\<rparr>
     (Class bool_class) = Inl DataProcessorDoesNotExist"
  by (simp add: pick_processor_def get_processor_def mro_def bool_class_def int_class_def
      issubclass_def)

section \<open>Storages and documents (document_base.py)\<close>

text \<open>
  A dictionary whose iteration order matters is an association list with one entry per
  key; \<open>dict_set\<close> is \<open>d[k] = v\<close>.
\<close>

type_synonym 'v dict = "(string \<times> 'v) list"

fun dict_set :: "'v dict \<Rightarrow> string \<Rightarrow> 'v \<Rightarrow> 'v dict" where
  "dict_set [] k v = [(k, v)]"
| "dict_set ((k', v') # rest) k v =
     (if k' = k then (k, v) # rest else (k', v') # dict_set rest k v)"

text \<open>
  What a converter class provides: \<open>from_db\<close> and \<open>to_db\<close>. The converters of a
  backend are not part of the modelled sources, so they are data of the storage.
\<close>

record converter =
  from_db :: "pyval \<Rightarrow> error + pyval"
  to_db :: "pyval \<Rightarrow> error + pyval"

text \<open>
  A lookup processor is called as \<open>processor(name, value, preprocessor, negate)\<close>
  and returns native conditions; for a key/value backend a native condition is a check
  on a record. The lookup processors of a backend are data of the storage as well.
\<close>

type_synonym lookup =
  "string \<Rightarrow> pyval \<Rightarrow> (pyval \<Rightarrow> error + pyval) \<Rightarrow> bool \<Rightarrow> (pyval dict \<Rightarrow> bool) list"

text \<open>
  A storage adapter over a key/value connection (the shelve backend): \<open>connection\<close>
  is \<open>None\<close> while disconnected, otherwise the records by primary key in iteration
  order. \<open>uuid4\<close> is a source of identifiers outside the program: \<open>uid_supply\<close> is
  the sequence it will produce and \<open>uid_next\<close> the position of the next draw. A
  storage is true in a condition when it is connected (\<open>__nonzero__\<close>). Storages are
  objects: the world maps each storage's identity to its current state.
\<close>

record storage =
  connection :: "pyval dict dict option"
  uid_supply :: "nat \<Rightarrow> string"
  uid_next :: nat
  converter_manager :: "converter manager"
  lookup_manager :: "lookup manager"

type_synonym world = "nat \<rightharpoonup> storage"

text \<open>
  \<open>DocumentSavedState\<close>: a reference to the storage, the primary key, the raw record.
\<close>

record saved_state =
  ss_storage :: "nat option"
  ss_key :: "string option"
  ss_data :: "pyval dict option"

definition empty_state :: saved_state where
  "empty_state = \<lparr>ss_storage = None, ss_key = None, ss_data = None\<rparr>"

definition storage_truthy :: "world \<Rightarrow> nat option \<Rightarrow> bool" where
  "storage_truthy w r =
     (case r of
        None \<Rightarrow> False
      | Some i \<Rightarrow> (case w i of None \<Rightarrow> False | Some st \<Rightarrow> connection st \<noteq> None))"

definition key_truthy :: "string option \<Rightarrow> bool" where
  "key_truthy k = (case k of None \<Rightarrow> False | Some s \<Rightarrow> s \<noteq> [])"

text \<open>\<open>DocumentSavedState.__nonzero__\<close>: \<open>bool(self.storage or self.key)\<close>.\<close>

definition state_nonzero :: "world \<Rightarrow> saved_state \<Rightarrow> bool" where
  "state_nonzero w s = (if storage_truthy w (ss_storage s) then True else key_truthy (ss_key s))"

text \<open>\<open>DocumentSavedState.__eq__\<close>.\<close>

definition state_eq :: "world \<Rightarrow> saved_state \<Rightarrow> saved_state \<Rightarrow> bool" where
  "state_eq w self other =
     (if storage_truthy w (ss_storage self) \<and> key_truthy (ss_key self) \<and> state_nonzero w other
      then (if ss_storage self = ss_storage other \<and> ss_key self = ss_key other
            then True else False)
      else False)"

text \<open>
  The declared type of a field: a class, a \<open>OneToManyRelation\<close> instance around a
  document class, or a text reference (a lazy import path).
\<close>

datatype decl_type = TClass pyclass | TMany pyclass | TRef string

text \<open>
  A validator is called with the document and the value and returns, raises
  \<open>StopValidation\<close> or raises \<open>ValidationError\<close>. A default is a plain value, a
  plain function (\<open>types.FunctionType\<close>: made by \<open>def\<close> or \<open>lambda\<close>) or any
  other callable; a callable takes no argument or one. Validators and defaults see the
  document as its field dictionary.
\<close>

datatype verdict = Pass | Stop | Fail

datatype callable = Arity0 pyval | Arity1 "pyval dict \<Rightarrow> pyval"

datatype default_spec = Value pyval | Function callable | OtherCallable callable

record metadata =
  doc_structure :: "decl_type dict"
  validators :: "(pyval dict \<Rightarrow> pyval \<Rightarrow> verdict) list dict"
  defaults :: "default_spec dict"
  skip_type_conversion :: "string list"
  set_item_processors :: "(pyval \<Rightarrow> pyval) dict"
  incoming_processors :: "(pyval \<Rightarrow> pyval) dict"
  outgoing_processors :: "(pyval \<Rightarrow> pyval) dict"
  break_on_invalid_incoming_data :: bool

record document =
  doc_class :: pyclass
  meta :: metadata
  data :: "pyval dict"
  state :: saved_state

text \<open>\<open>_validate_value_type\<close>, branch by branch.\<close>

definition validate_value_type :: "document \<Rightarrow> string \<Rightarrow> pyval \<Rightarrow> error + unit" where
  "validate_value_type doc key v =
     (if v = PNone then Inr ()
      else case map_of (doc_structure (meta doc)) key of
        None \<Rightarrow> Inr ()
      | Some (TRef path) \<Rightarrow> Inr ()
      | Some (TClass c) \<Rightarrow>
          (if issubclass c ''Document'' \<and> isinstance v ''basestring'' then Inr ()
           else if \<not> isinstance v (cname c)
             then Inl (ValidationError (cname (doc_class doc)) key v)
           else Inr ())
      | Some (TMany c) \<Rightarrow>
          (if \<not> has_iter v then Inl (ValidationError (cname (doc_class doc)) key v)
           else Inr ()))"

text \<open>\<open>_validate_value_custom\<close>: the tests in declared order.\<close>

fun run_tests :: "document \<Rightarrow> string \<Rightarrow> pyval \<Rightarrow> (pyval dict \<Rightarrow> pyval \<Rightarrow> verdict) list
    \<Rightarrow> error + unit" where
  "run_tests doc key v [] = Inr ()"
| "run_tests doc key v (t # ts) =
     (case t (data doc) v of
        Pass \<Rightarrow> run_tests doc key v ts
      | Stop \<Rightarrow> Inr ()
      | Fail \<Rightarrow> Inl (ValidationError (cname (doc_class doc)) key v))"

definition validate_value_custom :: "document \<Rightarrow> string \<Rightarrow> pyval \<Rightarrow> error + unit" where
  "validate_value_custom doc key v =
     run_tests doc key v (case map_of (validators (meta doc)) key of None \<Rightarrow> [] | Some ts \<Rightarrow> ts)"

definition validate_value :: "document \<Rightarrow> string \<Rightarrow> pyval \<Rightarrow> error + unit" where
  "validate_value doc key v =
     (case validate_value_type doc key v of
        Inl e \<Rightarrow> Inl e
      | Inr u \<Rightarrow> validate_value_custom doc key v)"

text \<open>
  \<open>Document.__eq__\<close>. The right-hand side is any object: one without a
  \<open>_saved_state\<close> attribute is represented by its truth value. The truth value of a
  document comes from its mapping base class, which is not among the modelled sources;
  it is the parameter \<open>nonzero\<close>.
\<close>

datatype other_object = NotADocument bool | ADocument document

definition document_eq :: "(document \<Rightarrow> bool) \<Rightarrow> world \<Rightarrow> document \<Rightarrow> other_object \<Rightarrow> bool" where
  "document_eq nonzero w self other =
     (case other of
        NotADocument truth \<Rightarrow> False
      | ADocument d \<Rightarrow>
          (if \<not> nonzero d then False else state_eq w (state self) (state d)))"

definition bound :: "world \<Rightarrow> document \<Rightarrow> bool" where
  "bound w d = (storage_truthy w (ss_storage (state d)) \<and> key_truthy (ss_key (state d)))"

text \<open>
  C10. A document whose saved state has no (connected) storage or no primary key is equal
  to nothing, itself included; and whenever \<open>d == other\<close> holds, \<open>other\<close> is a
  document, both saved states carry a storage and a key, and they agree on them.
\<close>

theorem transient_document_equals_nothing:
  "(\<not> bound w d \<longrightarrow> \<not> document_eq nonzero w d other \<and> \<not> document_eq nonzero w d (ADocument d)) \<and>
   (document_eq nonzero w d other \<longrightarrow>
      (\<exists>e. other = ADocument e \<and> bound w d \<and> bound w e \<and>
           ss_storage (state e) = ss_storage (state d) \<and> ss_key (state e) = ss_key (state d)))"
proof -
  have a: "\<not> bound w d \<Longrightarrow> \<not> document_eq nonzero w d x" for x
    by (cases x) (auto simp: document_eq_def state_eq_def bound_def)
  have b: "document_eq nonzero w d other \<Longrightarrow>
      \<exists>e. other = ADocument e \<and> bound w d \<and> bound w e \<and>
           ss_storage (state e) = ss_storage (state d) \<and> ss_key (state e) = ss_key (state d)"
    by (cases other) (auto simp: document_eq_def state_eq_def bound_def split: if_splits)
  show ?thesis using a b by blast
qed

definition example_class :: pyclass where
  "example_class = PyClass ''Note'' [''Document'', ''object'']"

definition example_meta :: metadata where
  "example_meta = \<lparr>doc_structure = [], validators = [], defaults = [],
     skip_type_conversion = [], set_item_processors = [], incoming_processors = [],
     outgoing_processors = [],
     break_on_invalid_incoming_data = False\<rparr>"

text \<open>
  Modelled from the spec: the converters of the backend (its \<open>converters\<close> module) are
  not among the sources. The converter of the examples hands every value through.
\<close>

definition identity_converter :: converter where
  "identity_converter = \<lparr>from_db = Inr, to_db = Inr\<rparr>"

text \<open>
  Modelled from the spec: the lookup processors of the backend (its \<open>lookups\<close>
  module) are not among the sources. \<open>field=value\<close> is equality: one check comparing
  the record's field with the converted value, inverted when negated.
\<close>

definition equals_lookup :: lookup where
  "equals_lookup name v pre negate =
     [\<lambda>record. (case pre v of
                   Inl e \<Rightarrow> False
                 | Inr x \<Rightarrow> (map_of record name = Some x) \<noteq> negate)]"

definition example_storage :: storage where
  "example_storage = \<lparr>connection = Some [],
     uid_supply = (\<lambda>n. if n = 0 then ''u0'' else if n = 1 then ''u1'' else ''u2''),
     uid_next = 0,
     converter_manager = \<lparr>processors = (\<lambda>k. Some identity_converter),
       default_processor = None\<rparr>,
     lookup_manager = \<lparr>processors = [''equals'' \<mapsto> equals_lookup],
       default_processor = Some equals_lookup\<rparr>\<rparr>"

definition example_world :: world where
  "example_world = [0 \<mapsto> example_storage]"

definition transient_doc :: document where
  "transient_doc = \<lparr>doc_class = example_class, meta = example_meta, data = [],
     state = empty_state\<rparr>"

definition stored_doc :: document where
  "stored_doc = \<lparr>doc_class = example_class, meta = example_meta, data = [],
     state = \<lparr>ss_storage = Some 0, ss_key = Some ''k'', ss_data = Some []\<rparr>\<rparr>"

theorem transient_document_equals_nothing_witness:
  "\<not> bound example_world transient_doc \<and>
   \<not> document_eq (\<lambda>d. True) example_world transient_doc (ADocument transient_doc) \<and>
   document_eq (\<lambda>d. True) example_world stored_doc (ADocument stored_doc) \<and>
   bound example_world stored_doc"
proof -
  have nb: "\<not> bound example_world transient_doc"
    by (simp add: bound_def transient_doc_def empty_state_def storage_truthy_def)
  have eq: "document_eq (\<lambda>d. True) example_world stored_doc (ADocument stored_doc)"
    by (simp add: document_eq_def state_eq_def stored_doc_def storage_truthy_def
        key_truthy_def state_nonzero_def example_world_def example_storage_def)
  from transient_document_equals_nothing
    [of example_world transient_doc "\<lambda>d. True" "ADocument transient_doc"] nb
  have "\<not> document_eq (\<lambda>d. True) example_world transient_doc (ADocument transient_doc)"
    by blast
  moreover from transient_document_equals_nothing
    [of example_world stored_doc "\<lambda>d. True" "ADocument stored_doc"] eq
  have "bound example_world stored_doc" by blast
  ultimately show ?thesis using nb eq by blast
qed

definition person_class :: pyclass where
  "person_class = PyClass ''Person'' [''Document'', ''object'']"

definition person_meta :: metadata where
  "person_meta = example_meta\<lparr>doc_structure :=
     [(''name'', TClass unicode_class), (''age'', TClass int_class),
      (''boss'', TClass person_class), (''friends'', TMany person_class),
      (''parent'', TRef ''self'')]\<rparr>"

definition person :: document where
  "person = \<lparr>doc_class = person_class, meta = person_meta,
     data = [(''name'', PNone), (''age'', PNone), (''boss'', PNone), (''friends'', PNone),
             (''parent'', PNone)],
     state = empty_state\<rparr>"

lemma validate_value_type_rejection:
  "validate_value_type doc key v \<noteq> Inr () \<Longrightarrow>
   validate_value_type doc key v = Inl (ValidationError (cname (doc_class doc)) key v)"
  by (auto simp: validate_value_type_def split: option.splits decl_type.splits if_splits)

text \<open>
  C6, as the code has it. \<open>None\<close> is accepted. For a field declared as a document
  class the accepted values are the instances of that class and the strings (raw primary
  keys); for a to-many relation, the values that provide \<open>__iter__\<close>; for any other
  declared class, the instances of it. A field declared by a text reference, or not
  declared at all, accepts every value. Every rejection is a validation error with the
  name of the document's class, the field and the value.
\<close>

theorem validate_value_type_cases:
  "validate_value_type doc key PNone = Inr () \<and>
   (v \<noteq> PNone \<and> map_of (doc_structure (meta doc)) key = Some (TClass c) \<and>
      issubclass c ''Document'' \<longrightarrow>
        (validate_value_type doc key v = Inr ())
          = (isinstance v (cname c) \<or> isinstance v ''basestring'')) \<and>
   (v \<noteq> PNone \<and> map_of (doc_structure (meta doc)) key = Some (TMany c) \<longrightarrow>
        (validate_value_type doc key v = Inr ()) = has_iter v) \<and>
   (v \<noteq> PNone \<and> map_of (doc_structure (meta doc)) key = Some (TClass c) \<and>
      \<not> issubclass c ''Document'' \<longrightarrow>
        (validate_value_type doc key v = Inr ()) = isinstance v (cname c)) \<and>
   (map_of (doc_structure (meta doc)) key = None \<or>
      map_of (doc_structure (meta doc)) key = Some (TRef path) \<longrightarrow>
        validate_value_type doc key v = Inr ()) \<and>
   (validate_value_type doc key v \<noteq> Inr () \<longrightarrow>
        validate_value_type doc key v = Inl (ValidationError (cname (doc_class doc)) key v))"
proof -
  have none: "validate_value_type doc key PNone = Inr ()"
    by (simp add: validate_value_type_def)
  have variant: "(validate_value_type doc key v = Inr ())
      = (isinstance v (cname c) \<or> isinstance v ''basestring'')"
    if "v \<noteq> PNone" "map_of (doc_structure (meta doc)) key = Some (TClass c)"
       "issubclass c ''Document''"
    using that by (auto simp: validate_value_type_def)
  have many: "(validate_value_type doc key v = Inr ()) = has_iter v"
    if "v \<noteq> PNone" "map_of (doc_structure (meta doc)) key = Some (TMany c)"
    using that by (auto simp: validate_value_type_def)
  have plain: "(validate_value_type doc key v = Inr ()) = isinstance v (cname c)"
    if "v \<noteq> PNone" "map_of (doc_structure (meta doc)) key = Some (TClass c)"
       "\<not> issubclass c ''Document''"
    using that by (auto simp: validate_value_type_def)
  have free: "validate_value_type doc key v = Inr ()"
    if "map_of (doc_structure (meta doc)) key = None \<or>
        map_of (doc_structure (meta doc)) key = Some (TRef path)"
    using that by (auto simp: validate_value_type_def)
  show ?thesis
    using none variant many plain free validate_value_type_rejection by blast
qed

theorem validate_value_type_cases_witness:
  "validate_value_type person ''boss'' (PUni ''pk-1'') = Inr () \<and>
   validate_value_type person ''boss'' (PObj person_class True) = Inr () \<and>
   validate_value_type person ''boss'' (PInt 3)
     = Inl (ValidationError ''Person'' ''boss'' (PInt 3)) \<and>
   validate_value_type person ''friends'' (PList []) = Inr () \<and>
   validate_value_type person ''friends'' (PUni ''pk-1'')
     = Inl (ValidationError ''Person'' ''friends'' (PUni ''pk-1'')) \<and>
   validate_value_type person ''age'' (PBool True) = Inr () \<and>
   validate_value_type person ''age'' (PStr ''7'')
     = Inl (ValidationError ''Person'' ''age'' (PStr ''7'')) \<and>
   validate_value_type person ''parent'' (PInt 3) = Inr ()"
proof -
  have s: "map_of (doc_structure (meta person)) ''boss'' = Some (TClass person_class)"
    "map_of (doc_structure (meta person)) ''friends'' = Some (TMany person_class)"
    "map_of (doc_structure (meta person)) ''age'' = Some (TClass int_class)"
    "map_of (doc_structure (meta person)) ''parent'' = Some (TRef ''self'')"
    "issubclass person_class ''Document''" "\<not> issubclass int_class ''Document''"
    "cname (doc_class person) = ''Person''"
    by (simp_all add: person_def person_meta_def example_meta_def issubclass_def mro_def
        person_class_def int_class_def)
  have i: "isinstance (PUni ''pk-1'') ''basestring''"
    "isinstance (PObj person_class True) (cname person_class)"
    "\<not> isinstance (PInt 3) (cname person_class)" "\<not> isinstance (PInt 3) ''basestring''"
    "isinstance (PBool True) (cname int_class)" "\<not> isinstance (PStr ''7'') (cname int_class)"
    by (simp_all add: isinstance_def issubclass_def mro_def person_class_def int_class_def
        unicode_class_def bool_class_def str_class_def)
  note t = validate_value_type_cases [where doc = person]
  have 1: "validate_value_type person ''boss'' (PUni ''pk-1'') = Inr ()"
    using t [where v = "PUni ''pk-1''" and key = "''boss''" and c = person_class] s i by simp
  have 2: "validate_value_type person ''boss'' (PObj person_class True) = Inr ()"
    using t [where v = "PObj person_class True" and key = "''boss''" and c = person_class] s i by simp
  have 3: "validate_value_type person ''boss'' (PInt 3)
      = Inl (ValidationError ''Person'' ''boss'' (PInt 3))"
    using t [where v = "PInt 3" and key = "''boss''" and c = person_class] s i by simp
  have 4: "validate_value_type person ''friends'' (PList []) = Inr ()"
    using t [where v = "PList []" and key = "''friends''" and c = person_class] s by simp
  have 5: "validate_value_type person ''friends'' (PUni ''pk-1'')
      = Inl (ValidationError ''Person'' ''friends'' (PUni ''pk-1''))"
    using t [where v = "PUni ''pk-1''" and key = "''friends''" and c = person_class] s by simp
  have 6: "validate_value_type person ''age'' (PBool True) = Inr ()"
    using t [where v = "PBool True" and key = "''age''" and c = int_class] s i by simp
  have 7: "validate_value_type person ''age'' (PStr ''7'')
      = Inl (ValidationError ''Person'' ''age'' (PStr ''7''))"
    using t [where v = "PStr ''7''" and key = "''age''" and c = int_class] s i by simp
  have 8: "validate_value_type person ''parent'' (PInt 3) = Inr ()"
    using t [where v = "PInt 3" and key = "''parent''" and path = "''self''"] s by simp
  show ?thesis using 1 2 3 4 5 6 7 8 by simp
qed

text \<open>
  C6 as the claim words it fails on a field declared by a text reference, as checked
  while \<open>Person(parent=3)\<close> assigns its keyword: the value \<open>3\<close> is no document, no
  string and no iterable, the declared type is neither a document class nor a relation,
  no \<open>isinstance\<close> test is made, and the value is accepted.
\<close>

theorem text_reference_accepts_any_value:
  "map_of (doc_structure (meta person)) ''parent'' = Some (TRef ''self'') \<and>
   \<not> isinstance (PInt 3) ''Document'' \<and> \<not> isinstance (PInt 3) ''basestring'' \<and>
   \<not> has_iter (PInt 3) \<and>
   validate_value_type person ''parent'' (PInt 3) = Inr ()"
  by (simp add: person_def person_meta_def example_meta_def validate_value_type_def
      isinstance_def issubclass_def mro_def int_class_def)

section \<open>Saving a document\<close>

text \<open>\<open>Document.__setitem__\<close>.\<close>

definition setitem :: "document \<Rightarrow> string \<Rightarrow> pyval \<Rightarrow> error + document" where
  "setitem doc key v =
     (if doc_structure (meta doc) \<noteq> [] \<and> map_of (doc_structure (meta doc)) key = None
      then Inl (KeyError [key])
      else let v' = (case map_of (set_item_processors (meta doc)) key of
                       None \<Rightarrow> v | Some f \<Rightarrow> f v)
           in case validate_value doc key v' of
                Inl e \<Rightarrow> Inl e
              | Inr u \<Rightarrow> Inr (doc\<lparr>data := dict_set (data doc) key v'\<rparr>))"

text \<open>Calling a Python callable with no argument, or with one.\<close>

fun call0 :: "callable \<Rightarrow> error + pyval" where
  "call0 (Arity0 v) = Inr v"
| "call0 (Arity1 f) = Inl TypeError"

fun call1 :: "callable \<Rightarrow> pyval dict \<Rightarrow> error + pyval" where
  "call1 (Arity1 f) d = Inr (f d)"
| "call1 (Arity0 v) d = Inl TypeError"

text \<open>
  One round of the generator \<open>_collect_defaults\<close>, for the entry \<open>name\<close> of the
  defaults table: nothing is yielded (\<open>None\<close>) unless the current value is \<open>None\<close>
  or the empty string; otherwise the value to yield, or the exception of the call.
\<close>

definition needs_default :: "document \<Rightarrow> string \<Rightarrow> bool" where
  "needs_default doc name =
     (case map_of (data doc) name of
        None \<Rightarrow> True
      | Some cur \<Rightarrow> cur = PNone \<or> cur = PStr [] \<or> cur = PUni [])"

fun default_value :: "document \<Rightarrow> default_spec \<Rightarrow> error + pyval" where
  "default_value doc (Value v) = Inr v"
| "default_value doc (Function f) = call1 f (data doc)"
| "default_value doc (OtherCallable f) = call0 f"

definition collect_default :: "document \<Rightarrow> string \<Rightarrow> default_spec \<Rightarrow> (error + pyval) option" where
  "collect_default doc name spec =
     (if needs_default doc name then Some (default_value doc spec) else None)"

text \<open>
  The loop of \<open>save\<close> over the generator: \<open>for key, value in
  _collect_defaults(self): self[key] = value\<close>. The generator is resumed after each
  assignment, so a later default sees the earlier ones.
\<close>

fun fill_defaults :: "document \<Rightarrow> default_spec dict \<Rightarrow> error + document" where
  "fill_defaults doc [] = Inr doc"
| "fill_defaults doc ((name, spec) # rest) =
     (case collect_default doc name spec of
        None \<Rightarrow> fill_defaults doc rest
      | Some (Inl e) \<Rightarrow> Inl e
      | Some (Inr v) \<Rightarrow>
          (case setitem doc name v of
             Inl e \<Rightarrow> Inl e
           | Inr doc' \<Rightarrow> fill_defaults doc' rest))"

text \<open>\<open>Document.validate\<close>.\<close>

fun validate_items :: "document \<Rightarrow> pyval dict \<Rightarrow> error + unit" where
  "validate_items doc [] = Inr ()"
| "validate_items doc ((key, v) # rest) =
     (case validate_value doc key v of
        Inl e \<Rightarrow> Inl e
      | Inr u \<Rightarrow> validate_items doc rest)"

definition validate :: "document \<Rightarrow> error + unit" where
  "validate doc = validate_items doc (data doc)"

text \<open>\<open>ConverterManager.to_db\<close> behind \<open>storage.value_to_db\<close>.\<close>

definition value_to_db :: "storage \<Rightarrow> pyval \<Rightarrow> error + pyval" where
  "value_to_db st v =
     (case pick_processor (converter_manager st) (Class (type_of v)) of
        Inl e \<Rightarrow> Inl e
      | Inr p \<Rightarrow> to_db p v)"

text \<open>\<open>BaseStorageAdapter._prepare_data_for_saving\<close>.\<close>

fun prepare_data_for_saving :: "storage \<Rightarrow> pyval dict \<Rightarrow> error + pyval dict" where
  "prepare_data_for_saving st [] = Inr []"
| "prepare_data_for_saving st ((k, v) # rest) =
     (case value_to_db st v of
        Inl e \<Rightarrow> Inl e
      | Inr x \<Rightarrow>
          (case prepare_data_for_saving st rest of
             Inl e \<Rightarrow> Inl e
           | Inr rest' \<Rightarrow> Inr ((k, x) # rest')))"

text \<open>
  The shelve backend's \<open>_generate_uid\<close> and \<open>_save\<close>:
  \<open>key = str(key or self._generate_uid())\<close>.
\<close>

definition generate_uid :: "storage \<Rightarrow> pyval dict dict \<Rightarrow> error + (storage \<times> string)" where
  "generate_uid st conn =
     (let key = uid_supply st (uid_next st)
      in if map_of conn key \<noteq> None then Inl AssertionError
         else Inr (st\<lparr>uid_next := Suc (uid_next st)\<rparr>, key))"

definition shelve_save :: "storage \<Rightarrow> string option \<Rightarrow> pyval dict \<Rightarrow> error + (storage \<times> string)" where
  "shelve_save st key dat =
     (case connection st of
        None \<Rightarrow> Inl TypeError
      | Some conn \<Rightarrow>
          (case (case key of
                   Some k \<Rightarrow> if k \<noteq> [] then Inr (st, k) else generate_uid st conn
                 | None \<Rightarrow> generate_uid st conn) of
             Inl e \<Rightarrow> Inl e
           | Inr (st1, k) \<Rightarrow> Inr (st1\<lparr>connection := Some (dict_set conn k dat)\<rparr>, k)))"

text \<open>\<open>BaseStorageAdapter.save\<close>.\<close>

definition storage_save :: "storage \<Rightarrow> string option \<Rightarrow> pyval dict \<Rightarrow> error + (storage \<times> string)" where
  "storage_save st key dat =
     (if connection st = None then Inl RuntimeError
      else case prepare_data_for_saving st dat of
        Inl e \<Rightarrow> Inl e
      | Inr outgoing \<Rightarrow>
          (case shelve_save st key outgoing of
             Inl e \<Rightarrow> Inl e
           | Inr (st', resulting_key) \<Rightarrow>
               (if resulting_key = [] then Inl AssertionError else Inr (st', resulting_key))))"

text \<open>\<open>DocumentSavedState.update\<close>: empty values are ignored.\<close>

definition update_saved_state ::
  "world \<Rightarrow> saved_state \<Rightarrow> nat option \<Rightarrow> string option \<Rightarrow> pyval dict option \<Rightarrow> saved_state" where
  "update_saved_state w s sto key dat =
     (if \<not> (storage_truthy w sto \<or> key_truthy key \<or> (dat \<noteq> None \<and> dat \<noteq> Some []))
      then s
      else \<lparr>ss_storage = (if storage_truthy w sto then sto else ss_storage s),
            ss_key = (if key_truthy key then key else ss_key s),
            ss_data = (case dat of None \<Rightarrow> ss_data s | Some x \<Rightarrow> Some x)\<rparr>)"

text \<open>
  The first lines of \<open>Document.save\<close>: the storage argument if it is given and true,
  else the storage the document is bound to, else \<open>AttributeError\<close>.
\<close>

definition target_storage :: "world \<Rightarrow> document \<Rightarrow> nat option \<Rightarrow> error + nat" where
  "target_storage w doc arg =
     (if \<not> storage_truthy w arg \<and> \<not> storage_truthy w (ss_storage (state doc))
      then Inl AttributeError
      else case (if storage_truthy w arg then arg else ss_storage (state doc)) of
        None \<Rightarrow> Inl AttributeError
      | Some t \<Rightarrow> Inr t)"

text \<open>
  The record the save starts from (a copy of the raw record, if there is one), the
  name/value pairs it goes over, and the loop that fills the record.
\<close>

definition initial_data :: "document \<Rightarrow> pyval dict" where
  "initial_data doc =
     (case ss_data (state doc) of None \<Rightarrow> [] | Some raw \<Rightarrow> raw)"

definition save_pairs :: "document \<Rightarrow> (string \<times> pyval) list" where
  "save_pairs doc =
     (if doc_structure (meta doc) \<noteq> []
      then map (\<lambda>(x, t). (x, case map_of (data doc) x of None \<Rightarrow> PNone | Some v \<Rightarrow> v))
             (doc_structure (meta doc))
      else data doc)"

fun assemble :: "metadata \<Rightarrow> storage \<Rightarrow> (string \<times> pyval) list \<Rightarrow> pyval dict \<Rightarrow> error + pyval dict" where
  "assemble m st [] acc = Inr acc"
| "assemble m st ((name, v) # rest) acc =
     (let v' = (case map_of (outgoing_processors m) name of
                  None \<Rightarrow> v
                | Some f \<Rightarrow> if v \<noteq> PNone then f v else v)
      in if name \<in> set (skip_type_conversion m)
         then assemble m st rest (dict_set acc name v')
         else case value_to_db st v' of
                Inl e \<Rightarrow> Inl e
              | Inr x \<Rightarrow> assemble m st rest (dict_set acc name x))"

text \<open>
  The key handed to the storage: \<open>self.pk\<close> if \<open>keep_key\<close> or if the target is the
  very storage the document is bound to, else \<open>None\<close>.
\<close>

definition primary_key_for :: "document \<Rightarrow> nat \<Rightarrow> bool \<Rightarrow> string option" where
  "primary_key_for doc t keep_key =
     (if keep_key \<or> Some t = ss_storage (state doc) then ss_key (state doc) else None)"

text \<open>
  \<open>Document.save(storage, keep_key)\<close>: the world after the save, the document after
  it and the key returned.
\<close>

definition document_save ::
  "world \<Rightarrow> document \<Rightarrow> nat option \<Rightarrow> bool \<Rightarrow> error + (world \<times> document \<times> string)" where
  "document_save w doc arg keep_key =
     (case target_storage w doc arg of
        Inl e \<Rightarrow> Inl e
      | Inr t \<Rightarrow>
     (case w t of
        None \<Rightarrow> Inl AttributeError
      | Some st \<Rightarrow>
     (case fill_defaults doc (defaults (meta doc)) of
        Inl e \<Rightarrow> Inl e
      | Inr d1 \<Rightarrow>
     (case validate d1 of
        Inl e \<Rightarrow> Inl e
      | Inr u \<Rightarrow>
     (case assemble (meta d1) st (save_pairs d1) (initial_data d1) of
        Inl e \<Rightarrow> Inl e
      | Inr dat \<Rightarrow>
     (case storage_save st (primary_key_for d1 t keep_key) dat of
        Inl e \<Rightarrow> Inl e
      | Inr (st', key) \<Rightarrow>
          (if key = [] then Inl AssertionError
           else let new_state =
                      update_saved_state (w(t \<mapsto> st')) (state d1) (Some t) (Some key) (Some dat)
                in if Some key \<noteq> ss_key new_state then Inl AssertionError
                   else Inr (w(t \<mapsto> st'), d1\<lparr>state := new_state\<rparr>, key))))))))"

lemma setitem_frame:
  "setitem d key v = Inr d' \<Longrightarrow>
   state d' = state d \<and> meta d' = meta d \<and> doc_class d' = doc_class d"
  by (auto simp: setitem_def Let_def split: if_splits sum.splits)


lemma shelve_save_connected:
  "shelve_save st key dat = Inr (st', k) \<Longrightarrow> connection st' \<noteq> None"
  by (auto simp: shelve_save_def generate_uid_def Let_def
      split: option.splits if_splits sum.splits)

lemma storage_save_connected:
  "storage_save st key dat = Inr (st', k) \<Longrightarrow> connection st' \<noteq> None \<and> k \<noteq> []"
  by (auto simp: storage_save_def split: option.splits if_splits sum.splits
      dest: shelve_save_connected)



lemma storage_save_frame:
  assumes "storage_save st key dat = Inr (st', k)"
  shows "lookup_manager st' = lookup_manager st \<and> converter_manager st' = converter_manager st \<and>
    (\<exists>conn out. connection st = Some conn \<and> prepare_data_for_saving st dat = Inr out \<and>
       connection st' = Some (dict_set conn k out))"
  using assms
  by (auto simp: storage_save_def shelve_save_def generate_uid_def Let_def
      split: option.splits sum.splits if_splits)




lemma document_save_steps:
  assumes "document_save w d arg keep_key = Inr (w', d', k)"
  shows "\<exists>t st d1 dat st'.
      target_storage w d arg = Inr t \<and> w t = Some st \<and>
      fill_defaults d (defaults (meta d)) = Inr d1 \<and> validate d1 = Inr () \<and>
      assemble (meta d1) st (save_pairs d1) (initial_data d1) = Inr dat \<and>
      storage_save st (primary_key_for d1 t keep_key) dat = Inr (st', k) \<and>
      w' = w(t \<mapsto> st') \<and>
      d' = d1\<lparr>state := \<lparr>ss_storage = Some t, ss_key = Some k, ss_data = Some dat\<rparr>\<rparr>"
proof -
  from assms obtain t where t: "target_storage w d arg = Inr t"
    by (auto simp: document_save_def split: sum.splits)
  from assms t obtain st where st: "w t = Some st"
    by (auto simp: document_save_def split: sum.splits option.splits)
  from assms t st obtain d1 where d1: "fill_defaults d (defaults (meta d)) = Inr d1"
    by (auto simp: document_save_def split: sum.splits)
  from assms t st d1 have v: "validate d1 = Inr ()"
    by (auto simp: document_save_def split: sum.splits)
  from assms t st d1 v obtain dat
    where dat: "assemble (meta d1) st (save_pairs d1) (initial_data d1) = Inr dat"
    by (auto simp: document_save_def split: sum.splits)
  from assms t st d1 v dat obtain st' k'
    where sv: "storage_save st (primary_key_for d1 t keep_key) dat = Inr (st', k')"
    by (auto simp: document_save_def split: sum.splits)
  have conn: "connection st' \<noteq> None" "k' \<noteq> []"
    using storage_save_connected [OF sv] by simp_all
  have upd: "update_saved_state (w(t \<mapsto> st')) (state d1) (Some t) (Some k') (Some dat)
      = \<lparr>ss_storage = Some t, ss_key = Some k', ss_data = Some dat\<rparr>"
    using conn by (simp add: update_saved_state_def storage_truthy_def key_truthy_def)
  from assms t st d1 v dat sv conn upd have res: "w' = w(t \<mapsto> st')" "k = k'"
      "d' = d1\<lparr>state := \<lparr>ss_storage = Some t, ss_key = Some k', ss_data = Some dat\<rparr>\<rparr>"
    by (auto simp: document_save_def Let_def split: sum.splits if_splits)
  show ?thesis using t st d1 v dat sv res by auto
qed

definition two_world :: world where
  "two_world = [0 \<mapsto> example_storage, 1 \<mapsto> example_storage]"

lemmas save_evaluation =
  document_save_def target_storage_def storage_truthy_def two_world_def
  example_storage_def stored_doc_def example_meta_def validate_def save_pairs_def
  initial_data_def primary_key_for_def storage_save_def shelve_save_def generate_uid_def
  update_saved_state_def key_truthy_def Let_def









definition slug_of :: "pyval dict \<Rightarrow> pyval" where
  "slug_of fs = (case map_of fs ''text'' of None \<Rightarrow> PNone | Some v \<Rightarrow> v)"

definition required :: "pyval dict \<Rightarrow> pyval \<Rightarrow> verdict" where
  "required fs v = (if v = PNone then Fail else Pass)"

definition draft :: document where
  "draft = \<lparr>doc_class = example_class,
     meta = example_meta\<lparr>
       doc_structure := [(''text'', TClass unicode_class), (''slug'', TClass unicode_class),
                         (''kind'', TClass unicode_class)],
       validators := [(''text'', [required])],
       defaults := [(''text'', Value (PUni ''no text'')),
                    (''slug'', Function (Arity1 slug_of)),
                    (''kind'', OtherCallable (Arity0 (PUni ''note'')))]\<rparr>,
     data = [(''text'', PNone), (''slug'', PUni ''''), (''kind'', PNone)],
     state = empty_state\<rparr>"

text \<open>
  C5, as the code has it. For an entry of the defaults table whose field is \<open>None\<close>
  or the empty string the generator yields: a value that is not callable as it is; a
  plain function (\<open>def\<close> or \<open>lambda\<close>) called with the document as its only
  argument, whatever number of arguments it takes; any other callable called with no
  argument. A call with the wrong number of arguments is a \<open>TypeError\<close>. Nothing is
  yielded for a field that has a value. Each yielded value is assigned with
  \<open>__setitem__\<close>, and \<open>save\<close> validates the document only after that: a
  successful save validated and wrote the default-filled document, and a validation
  failure of the default-filled document is the failure of the save.
\<close>

theorem collect_default_cases:
  "(needs_default d name \<longrightarrow>
      collect_default d name (Value v) = Some (Inr v) \<and>
      collect_default d name (OtherCallable (Arity0 v)) = Some (Inr v) \<and>
      collect_default d name (Function (Arity1 f)) = Some (Inr (f (data d))) \<and>
      collect_default d name (Function (Arity0 v)) = Some (Inl TypeError) \<and>
      collect_default d name (OtherCallable (Arity1 f)) = Some (Inl TypeError)) \<and>
   (\<not> needs_default d name \<longrightarrow> collect_default d name spec = None) \<and>
   (collect_default d name spec = Some (Inr v) \<longrightarrow>
      fill_defaults d [(name, spec)] = setitem d name v) \<and>
   (document_save w d arg keep_key = Inr (w', d', k) \<longrightarrow>
      (\<exists>d1. fill_defaults d (defaults (meta d)) = Inr d1 \<and> validate d1 = Inr () \<and>
            data d' = data d1)) \<and>
   (target_storage w d arg = Inr t \<and> w t = Some st \<and>
    fill_defaults d (defaults (meta d)) = Inr d1 \<and> validate d1 = Inl e \<longrightarrow>
      document_save w d arg keep_key = Inl e)"
proof -
  have a: "fill_defaults d [(name, spec)] = setitem d name v"
    if "collect_default d name spec = Some (Inr v)"
    using that by (simp split: sum.splits)
  have b: "\<exists>d1. fill_defaults d (defaults (meta d)) = Inr d1 \<and> validate d1 = Inr () \<and>
            data d' = data d1"
    if "document_save w d arg keep_key = Inr (w', d', k)"
    using document_save_steps [OF that] by auto
  have c: "document_save w d arg keep_key = Inl e"
    if "target_storage w d arg = Inr t \<and> w t = Some st \<and>
        fill_defaults d (defaults (meta d)) = Inr d1 \<and> validate d1 = Inl e"
    using that by (simp add: document_save_def)
  show ?thesis
    using a b c by (simp add: collect_default_def)
qed

lemmas default_evaluation =
  draft_def example_world_def collect_default_def needs_default_def
  setitem_def validate_value_def validate_value_type_def validate_value_custom_def
  slug_of_def required_def isinstance_def issubclass_def mro_def unicode_class_def
  value_to_db_def pick_processor_def get_processor_def identity_converter_def empty_state_def

theorem collect_default_cases_witness:
  "needs_default draft ''text'' \<and>
   collect_default draft ''text'' (Value (PUni ''no text'')) = Some (Inr (PUni ''no text'')) \<and>
   collect_default draft ''slug'' (Function (Arity1 slug_of)) = Some (Inr (slug_of (data draft))) \<and>
   collect_default draft ''kind'' (OtherCallable (Arity0 (PUni ''note'')))
     = Some (Inr (PUni ''note'')) \<and>
   \<not> needs_default (draft\<lparr>data := [(''text'', PUni ''given'')]\<rparr>) ''text'' \<and>
   collect_default (draft\<lparr>data := [(''text'', PUni ''given'')]\<rparr>) ''text''
     (Value (PUni ''no text'')) = None \<and>
   (\<exists>w' d'. document_save example_world draft (Some 0) False = Inr (w', d', ''u0'') \<and>
      data d' = [(''text'', PUni ''no text''), (''slug'', PUni ''no text''),
                 (''kind'', PUni ''note'')] \<and>
      fill_defaults draft (defaults (meta draft)) = Inr (d'\<lparr>state := empty_state\<rparr>)) \<and>
   document_save example_world (draft\<lparr>meta := (meta draft)\<lparr>defaults := []\<rparr>\<rparr>) (Some 0) False
     = Inl (ValidationError ''Note'' ''text'' PNone)"
proof -
  have n: "needs_default draft ''text''" "needs_default draft ''slug''"
    "needs_default draft ''kind''"
    "\<not> needs_default (draft\<lparr>data := [(''text'', PUni ''given'')]\<rparr>) ''text''"
    by (simp_all add: default_evaluation)
  have sv: "\<exists>w' d'. document_save example_world draft (Some 0) False = Inr (w', d', ''u0'') \<and>
      data d' = [(''text'', PUni ''no text''), (''slug'', PUni ''no text''),
                 (''kind'', PUni ''note'')] \<and>
      fill_defaults draft (defaults (meta draft)) = Inr (d'\<lparr>state := empty_state\<rparr>)"
    by (simp add: save_evaluation default_evaluation)
  have t: "target_storage example_world (draft\<lparr>meta := (meta draft)\<lparr>defaults := []\<rparr>\<rparr>) (Some 0)
      = Inr 0" "example_world 0 = Some example_storage"
    "fill_defaults (draft\<lparr>meta := (meta draft)\<lparr>defaults := []\<rparr>\<rparr>)
       (defaults (meta (draft\<lparr>meta := (meta draft)\<lparr>defaults := []\<rparr>\<rparr>)))
      = Inr (draft\<lparr>meta := (meta draft)\<lparr>defaults := []\<rparr>\<rparr>)"
    "validate (draft\<lparr>meta := (meta draft)\<lparr>defaults := []\<rparr>\<rparr>)
      = Inl (ValidationError ''Note'' ''text'' PNone)"
    by (simp_all add: save_evaluation default_evaluation example_class_def)
  have fail: "document_save example_world (draft\<lparr>meta := (meta draft)\<lparr>defaults := []\<rparr>\<rparr>)
      (Some 0) False = Inl (ValidationError ''Note'' ''text'' PNone)"
    using collect_default_cases
      [where d = "draft\<lparr>meta := (meta draft)\<lparr>defaults := []\<rparr>\<rparr>" and w = example_world
        and arg = "Some 0" and t = 0 and st = example_storage
        and ?d1.0 = "draft\<lparr>meta := (meta draft)\<lparr>defaults := []\<rparr>\<rparr>"
        and e = "ValidationError ''Note'' ''text'' PNone" and keep_key = False] t
    by simp
  have c1: "collect_default draft ''text'' (Value (PUni ''no text''))
      = Some (Inr (PUni ''no text''))"
    using collect_default_cases [where d = draft and name = "''text''"
        and v = "PUni ''no text''"] n by simp
  have c2: "collect_default draft ''slug'' (Function (Arity1 slug_of))
      = Some (Inr (slug_of (data draft)))"
    using collect_default_cases [where d = draft and name = "''slug''" and f = slug_of] n
    by simp
  have c3: "collect_default draft ''kind'' (OtherCallable (Arity0 (PUni ''note'')))
      = Some (Inr (PUni ''note''))"
    using collect_default_cases [where d = draft and name = "''kind''"
        and v = "PUni ''note''"] n by simp
  have c4: "collect_default (draft\<lparr>data := [(''text'', PUni ''given'')]\<rparr>) ''text''
      (Value (PUni ''no text'')) = None"
    using collect_default_cases [where d = "draft\<lparr>data := [(''text'', PUni ''given'')]\<rparr>"
        and name = "''text''" and spec = "Value (PUni ''no text'')"] n by simp
  show ?thesis using n sv fail c1 c2 c3 c4 by blast
qed

definition lambda_draft :: document where
  "lambda_draft = draft\<lparr>meta := (meta draft)\<lparr>defaults :=
     [(''kind'', Function (Arity0 (PUni ''note'')))]\<rparr>\<rparr>"

text \<open>
  C5 as the claim words it fails for a default that is a plain function of no argument
  (\<open>lambda: u'note'\<close>): called with no argument it would return its value, but the
  code calls it with the document, and the save ends in a \<open>TypeError\<close>.
\<close>

theorem plain_function_default_gets_document:
  "needs_default lambda_draft ''kind'' \<and>
   call0 (Arity0 (PUni ''note'')) = Inr (PUni ''note'') \<and>
   collect_default lambda_draft ''kind'' (Function (Arity0 (PUni ''note'')))
     = Some (Inl TypeError) \<and>
   document_save example_world lambda_draft (Some 0) False = Inl TypeError"
  by (simp add: lambda_draft_def save_evaluation default_evaluation)

section \<open>Queries of the key/value backend (ext/shelve_db)\<close>

text \<open>\<open>str.split(sep)\<close> and \<open>sep in s\<close> for a separator that is not empty.\<close>

fun split_from :: "string \<Rightarrow> string \<Rightarrow> string \<Rightarrow> string list" where
  "split_from sep acc [] = [rev acc]"
| "split_from sep acc (c # cs) =
     (if sep \<noteq> [] \<and> take (length sep) (c # cs) = sep
      then rev acc # split_from sep [] (drop (length sep) (c # cs))
      else split_from sep (c # acc) cs)"

definition split :: "string \<Rightarrow> string \<Rightarrow> string list" where
  "split s sep = split_from sep [] s"

definition contains :: "string \<Rightarrow> string \<Rightarrow> bool" where
  "contains s sep = (length (split s sep) > 1)"

text \<open>
  The ordering specification \<open>{'names': names, 'reverse': reverse}\<close> and the query
  adapter's own attributes. An empty \<open>_ordering\<close> dictionary is \<open>None\<close>.
\<close>

record ordering_spec =
  names :: "string list"
  reverse :: bool

record query =
  storage_ref :: nat
  query_class :: "pyclass \<times> metadata"
  conditions :: "(pyval dict \<Rightarrow> bool) list"
  ordering :: "ordering_spec option"

text \<open>
  \<open>ProcessorManager.get_processor\<close> as the lookup manager inherits it: the key is the
  operation name, and an absent or empty name asks for the default.
\<close>

definition get_lookup :: "lookup manager \<Rightarrow> string option \<Rightarrow> error + lookup" where
  "get_lookup m operation =
     (case (case operation of Some op \<Rightarrow> if op \<noteq> [] then Some op else None | None \<Rightarrow> None) of
        Some op \<Rightarrow>
          (case processors m op of
             Some p \<Rightarrow> Inr p
           | None \<Rightarrow> Inl DataProcessorDoesNotExist)
      | None \<Rightarrow>
          (case default_processor m of
             Some p \<Rightarrow> Inr p
           | None \<Rightarrow> Inl DataProcessorDoesNotExist))"

text \<open>
  \<open>BaseQueryAdapter._get_native_conditions\<close>, consumed at once by \<open>list(...)\<close>.
  A lookup with more than one \<open>__\<close> cannot be unpacked into name and operation.
\<close>

definition parse_lookup :: "string \<Rightarrow> error + (string \<times> string option)" where
  "parse_lookup lookup_name =
     (if contains lookup_name ''__''
      then (case split lookup_name ''__'' of
              [name, operation] \<Rightarrow> Inr (name, Some operation)
            | parts \<Rightarrow> Inl ValueError)
      else Inr (lookup_name, None))"

fun get_native_conditions ::
  "storage \<Rightarrow> (string \<times> pyval) list \<Rightarrow> bool \<Rightarrow> error + (pyval dict \<Rightarrow> bool) list" where
  "get_native_conditions st [] negate = Inr []"
| "get_native_conditions st ((lookup_name, v) # rest) negate =
     (case parse_lookup lookup_name of
        Inl e \<Rightarrow> Inl e
      | Inr (name, operation) \<Rightarrow>
          (case get_lookup (lookup_manager st) operation of
             Inl e \<Rightarrow> Inl e
           | Inr processor \<Rightarrow>
               (case get_native_conditions st rest negate of
                  Inl e \<Rightarrow> Inl e
                | Inr others \<Rightarrow> Inr (processor name v (value_to_db st) negate @ others))))"

text \<open>\<open>QueryAdapter._clone\<close>: a new adapter, built from the attributes of this one.\<close>

definition clone ::
  "query \<Rightarrow> (pyval dict \<Rightarrow> bool) list option \<Rightarrow> ordering_spec option \<Rightarrow> query" where
  "clone q extra_conditions extra_ordering =
     \<lparr>storage_ref = storage_ref q,
      query_class = query_class q,
      conditions = conditions q @ (case extra_conditions of None \<Rightarrow> [] | Some cs \<Rightarrow> cs),
      ordering = (case extra_ordering of None \<Rightarrow> ordering q | Some ord \<Rightarrow> Some ord)\<rparr>"

text \<open>
  The private \<open>__where(lookups, negate=False)\<close> and the method
  \<open>_where(self, **conditions)\<close> that calls it. \<open>_where\<close> takes keyword arguments
  only: a call that hands it a positional argument is refused by Python with
  \<open>TypeError\<close> before its body runs. \<open>where_method\<close> is a call of \<open>_where\<close> with
  the given positional and keyword arguments.
\<close>

definition private_where :: "world \<Rightarrow> query \<Rightarrow> (string \<times> pyval) list \<Rightarrow> bool \<Rightarrow> error + query" where
  "private_where w q lookups negate =
     (case w (storage_ref q) of
        None \<Rightarrow> Inl AttributeError
      | Some st \<Rightarrow>
          (case get_native_conditions st lookups negate of
             Inl e \<Rightarrow> Inl e
           | Inr cs \<Rightarrow> Inr (clone q (Some cs) None)))"

definition where_method ::
  "world \<Rightarrow> query \<Rightarrow> (string \<times> pyval) list list \<Rightarrow> (string \<times> pyval) list \<Rightarrow> error + query" where
  "where_method w q positional keywords =
     (if positional \<noteq> [] then Inl TypeError else private_where w q keywords False)"

text \<open>
  The public \<open>where(**conditions)\<close> is \<open>self._where(**conditions)\<close>. The public
  \<open>where_not(**conditions)\<close> is \<open>self._where_not(**conditions)\<close>, whose body in this
  backend is \<open>self._where(conditions, negate=True)\<close>: the dictionary goes in as a
  positional argument. The MongoDB backend's \<open>_where_not\<close> is
  \<open>self.__where(conditions, negate=True)\<close>.
\<close>

definition query_where :: "world \<Rightarrow> query \<Rightarrow> (string \<times> pyval) list \<Rightarrow> error + query" where
  "query_where w q conds = where_method w q [] conds"

definition where_not :: "world \<Rightarrow> query \<Rightarrow> (string \<times> pyval) list \<Rightarrow> error + query" where
  "where_not w q conds = where_method w q [conds] [(''negate'', PBool True)]"

definition mongo_where_not :: "world \<Rightarrow> query \<Rightarrow> (string \<times> pyval) list \<Rightarrow> error + query" where
  "mongo_where_not w q conds = private_where w q conds True"

text \<open>\<open>QueryAdapter.order_by(names, reverse)\<close>; \<open>names\<close> is one name or several.\<close>

datatype names_arg = One string | Several "string list"

definition order_by :: "query \<Rightarrow> names_arg \<Rightarrow> bool \<Rightarrow> query" where
  "order_by q names_given rev_flag =
     (let ns = (case names_given of One n \<Rightarrow> [n] | Several l \<Rightarrow> l)
      in clone q None (Some \<lparr>names = rev ns, reverse = rev_flag\<rparr>))"


text \<open>
  Modelled from the spec: the ordering of two field values is Python's own (numbers by
  value, strings by their characters, \<open>None\<close> below numbers below everything else;
  values of other kinds are left as ties), and lists are ordered lexicographically.
\<close>

definition number :: "pyval \<Rightarrow> int option" where
  "number v = (case v of PBool b \<Rightarrow> Some (if b then 1 else 0) | PInt n \<Rightarrow> Some n | _ \<Rightarrow> None)"

definition text_of :: "pyval \<Rightarrow> string option" where
  "text_of v = (case v of PStr s \<Rightarrow> Some s | PUni s \<Rightarrow> Some s | _ \<Rightarrow> None)"

fun string_le :: "string \<Rightarrow> string \<Rightarrow> bool" where
  "string_le [] t = True"
| "string_le (c # cs) [] = False"
| "string_le (c # cs) (d # ds) =
     ((of_char c :: nat) < of_char d \<or> (c = d \<and> string_le cs ds))"

definition kind_rank :: "pyval \<Rightarrow> nat" where
  "kind_rank v = (if v = PNone then 0 else if number v \<noteq> None then 1 else 2)"

definition py_le :: "pyval \<Rightarrow> pyval \<Rightarrow> bool" where
  "py_le a b =
     (case (number a, number b) of
        (Some m, Some n) \<Rightarrow> m \<le> n
      | _ \<Rightarrow> (case (text_of a, text_of b) of
                (Some s, Some t) \<Rightarrow> string_le s t
              | _ \<Rightarrow> kind_rank a \<le> kind_rank b))"

fun key_le :: "pyval list \<Rightarrow> pyval list \<Rightarrow> bool" where
  "key_le [] ys = True"
| "key_le (x # xs) [] = False"
| "key_le (x # xs) (y # ys) =
     (if py_le x y \<and> py_le y x then key_le xs ys else py_le x y)"

text \<open>
  Modelled from the spec: \<open>LazySorted(data, key, reverse)\<close> (doqu.utils.data_structures,
  not among the sources) hands the data to a stable sort by \<open>key\<close>, descending when
  \<open>reverse\<close> is set; records with equal keys keep their order either way.
\<close>

fun insert_stable :: "('a \<Rightarrow> 'a \<Rightarrow> bool) \<Rightarrow> 'a \<Rightarrow> 'a list \<Rightarrow> 'a list" where
  "insert_stable le x [] = [x]"
| "insert_stable le x (y # ys) =
     (if le y x then y # insert_stable le x ys else x # y # ys)"

definition lazy_sorted :: "('a \<Rightarrow> pyval list) \<Rightarrow> bool \<Rightarrow> 'a list \<Rightarrow> 'a list" where
  "lazy_sorted key rev_flag xs =
     foldl (\<lambda>sorted x. insert_stable
              (\<lambda>a b. if rev_flag then key_le (key b) (key a) else key_le (key a) (key b))
              x sorted) [] xs"

text \<open>
  \<open>QueryAdapter._do_search\<close> over the records of a connected storage: the keys of
  the records that pass every condition, in iteration order, sorted if an ordering is
  set. \<open>make_sort_key\<close> leaves out the names whose value is \<open>None\<close> or absent.
\<close>

definition finder :: "pyval dict dict \<Rightarrow> query \<Rightarrow> string list" where
  "finder conn q = map fst (filter (\<lambda>(pk, fs). list_all (\<lambda>check. check fs) (conditions q)) conn)"

definition make_sort_key :: "pyval dict dict \<Rightarrow> string list \<Rightarrow> string \<Rightarrow> pyval list" where
  "make_sort_key conn ns pk =
     (case map_of conn pk of
        None \<Rightarrow> []
      | Some fs \<Rightarrow>
          concat (map (\<lambda>name. case map_of fs name of
                                 None \<Rightarrow> []
                               | Some v \<Rightarrow> if v = PNone then [] else [v]) ns))"

definition do_search :: "pyval dict dict \<Rightarrow> query \<Rightarrow> string list" where
  "do_search conn q =
     (case ordering q of
        None \<Rightarrow> finder conn q
      | Some ord \<Rightarrow> lazy_sorted (make_sort_key conn (names ord)) (reverse ord) (finder conn q))"

definition all_records :: query where
  "all_records = \<lparr>storage_ref = 0, query_class = (example_class, example_meta),
     conditions = [], ordering = None\<rparr>"

definition two_records :: "pyval dict dict" where
  "two_records = [(''k1'', [(''a'', PInt 1), (''b'', PInt 2)]),
                  (''k2'', [(''a'', PInt 2), (''b'', PInt 1)])]"

lemmas search_evaluation =
  do_search_def finder_def make_sort_key_def lazy_sorted_def order_by_def clone_def
  all_records_def two_records_def py_le_def number_def text_of_def kind_rank_def Let_def

text \<open>
  C8. The claim: the names are reversed before the stable sort so that the name listed
  first dominates the final order. Evaluated on the code with two records,
  \<open>k1 = {a: 1, b: 2}\<close> and \<open>k2 = {a: 2, b: 1}\<close>, and \<open>order_by(['a', 'b'])\<close>:
  the stored names are \<open>['b', 'a']\<close>, the sort keys are the lists \<open>[2, 1]\<close> and
  \<open>[1, 2]\<close>, compared from the left, and \<open>k2\<close> comes first although \<open>k1\<close> has the
  smaller \<open>a\<close>: the name listed last dominates. Ordering by \<open>a\<close> alone gives
  \<open>k1\<close> first.
\<close>

theorem order_by_last_name_dominates:
  "ordering (order_by all_records (Several [''a'', ''b'']) False)
     = Some \<lparr>names = [''b'', ''a''], reverse = False\<rparr> \<and>
   make_sort_key two_records [''b'', ''a''] ''k1'' = [PInt 2, PInt 1] \<and>
   make_sort_key two_records [''b'', ''a''] ''k2'' = [PInt 1, PInt 2] \<and>
   do_search two_records (order_by all_records (Several [''a'', ''b'']) False) = [''k2'', ''k1''] \<and>
   do_search two_records (order_by all_records (One ''a'') False) = [''k1'', ''k2'']"
  by (simp add: search_evaluation)

lemma where_appends:
  "query_where w q conds = Inr q' \<Longrightarrow>
   \<exists>st cs. w (storage_ref q) = Some st \<and> get_native_conditions st conds False = Inr cs \<and>
     conditions q' = conditions q @ cs \<and> ordering q' = ordering q \<and>
     storage_ref q' = storage_ref q \<and> query_class q' = query_class q"
  by (auto simp: query_where_def where_method_def private_where_def clone_def
      split: option.splits sum.splits)

lemma order_by_keeps_conditions:
  "conditions (order_by q ns r) = conditions q \<and> storage_ref (order_by q ns r) = storage_ref q"
  by (simp add: order_by_def clone_def Let_def)

text \<open>
  C7. The claim: \<open>where\<close>, \<open>where_not\<close> and \<open>order_by\<close> each return a new query
  with the new conditions appended. Evaluated on the code: \<open>where_not\<close> of this
  backend raises \<open>TypeError\<close> for every query and every conditions, while \<open>where\<close>
  with the same conditions, and the MongoDB backend's \<open>where_not\<close>, return a query
  with the one translated condition.
\<close>

theorem where_not_raises:
  "where_not w q conds = Inl TypeError \<and>
   (\<exists>q'. query_where example_world all_records [(''name'', PUni ''x'')] = Inr q' \<and>
         length (conditions q') = 1) \<and>
   (\<exists>q'. mongo_where_not example_world all_records [(''name'', PUni ''x'')] = Inr q' \<and>
         length (conditions q') = 1)"
  by (simp add: where_not_def mongo_where_not_def query_where_def where_method_def
      private_where_def example_world_def
      example_storage_def all_records_def get_lookup_def parse_lookup_def contains_def
      split_def clone_def equals_lookup_def)

section \<open>The result cache of a query\<close>

text \<open>
  The state of a cached iterator: the elements read so far, the underlying iterator
  (what it has left to give, or \<open>None\<close> when there is none), and how often
  \<open>_do_search\<close> has been called for this query. The records of the storage do not
  change while the query is in use: \<open>results\<close> is what \<open>_do_search\<close> returns.
\<close>

record 'a cached_iterator =
  cache :: "'a list"
  iter :: "'a list option"
  searches :: nat

text \<open>
  \<open>QueryAdapter._init\<close> of both backends ends with
  \<open>self._iter = self._do_search()\<close>; the cache starts empty.
\<close>

definition init :: "'a list \<Rightarrow> 'a cached_iterator" where
  "init results = \<lparr>cache = [], iter = Some results, searches = 1\<rparr>"

text \<open>
  \<open>_prepare\<close> of the shelve backend (\<open>if self._iter is None\<close>) and of the MongoDB
  backend (\<open>if self._iter is None and not self._cache\<close>).
\<close>

definition shelve_prepare :: "'a list \<Rightarrow> 'a cached_iterator \<Rightarrow> 'a cached_iterator" where
  "shelve_prepare results c =
     (if iter c = None then c\<lparr>iter := Some results, searches := Suc (searches c)\<rparr> else c)"

definition mongo_prepare :: "'a list \<Rightarrow> 'a cached_iterator \<Rightarrow> 'a cached_iterator" where
  "mongo_prepare results c =
     (if iter c = None \<and> cache c = []
      then c\<lparr>iter := Some results, searches := Suc (searches c)\<rparr> else c)"

text \<open>
  Modelled from the spec: \<open>CachedIterator.__iter__\<close> (doqu.utils.data_structures) is
  not among the sources. An iteration calls the \<open>_prepare\<close> hook, serves the cached
  elements in the order they were first fetched, and resumes the underlying iterator
  only when more is asked for than the cache holds and the iterator is not exhausted;
  every element fetched is appended to the cache, and an iterator found exhausted is
  dropped. \<open>iterate prepare n\<close> is an iteration whose consumer stops after \<open>n\<close>
  elements; \<open>iterate_all\<close> is one that runs to the end.
\<close>

definition iterate ::
  "('a cached_iterator \<Rightarrow> 'a cached_iterator) \<Rightarrow> nat \<Rightarrow> 'a cached_iterator
    \<Rightarrow> 'a list \<times> 'a cached_iterator" where
  "iterate prepare n c0 =
     (let c = prepare c0
      in if n \<le> length (cache c) then (take n (cache c), c)
         else case iter c of
           None \<Rightarrow> (cache c, c)
         | Some rest \<Rightarrow>
             (let k = n - length (cache c)
              in if k \<le> length rest
                 then (cache c @ take k rest,
                       c\<lparr>cache := cache c @ take k rest, iter := Some (drop k rest)\<rparr>)
                 else (cache c @ rest, c\<lparr>cache := cache c @ rest, iter := None\<rparr>)))"

definition iterate_all ::
  "('a cached_iterator \<Rightarrow> 'a cached_iterator) \<Rightarrow> 'a cached_iterator
    \<Rightarrow> 'a list \<times> 'a cached_iterator" where
  "iterate_all prepare c0 =
     (let c = prepare c0
      in case iter c of
           None \<Rightarrow> (cache c, c)
         | Some rest \<Rightarrow> (cache c @ rest, c\<lparr>cache := cache c @ rest, iter := None\<rparr>))"

lemma iterate_beyond_the_end:
  "iterate prepare (Suc (length (cache (prepare c)) +
      (case iter (prepare c) of None \<Rightarrow> 0 | Some rest \<Rightarrow> length rest))) c
   = iterate_all prepare c"
  by (simp add: iterate_def iterate_all_def Let_def split: option.splits)

lemma restart_before_exhaustion:
  "iter c = Some rest \<Longrightarrow> n \<le> length (cache c) + length rest \<Longrightarrow>
   iterate (shelve_prepare results) n c = (ys, c') \<Longrightarrow>
   searches c' = searches c \<and> iter c' \<noteq> None \<and> ys = take n (cache c @ rest) \<and>
   cache c' @ (case iter c' of None \<Rightarrow> [] | Some r \<Rightarrow> r) = cache c @ rest"
  by (auto simp: iterate_def shelve_prepare_def Let_def split: if_splits)

lemma mongo_iterates_alike:
  "results \<noteq> [] \<Longrightarrow>
   iterate_all (mongo_prepare results) (init results) = (ys, c) \<Longrightarrow>
   iterate_all (mongo_prepare results) c = (ys, c) \<and> searches c = 1"
  by (auto simp: iterate_all_def mongo_prepare_def init_def Let_def)

text \<open>
  C3. The claim: iterating a query twice yields the same sequence, from one backend
  search. Evaluated on the shelve backend's \<open>_prepare\<close> with two matching records: the
  first full iteration yields them and leaves the iterator dropped; the second full
  iteration finds no iterator, searches again, serves the cache and then appends the new
  search's elements, so it yields four elements from a second search. With the MongoDB
  backend's \<open>_prepare\<close> the same second iteration yields the two cached elements.
\<close>

theorem shelve_second_iteration_repeats:
  "iterate_all (shelve_prepare [''k1'', ''k2'']) (init [''k1'', ''k2''])
     = ([''k1'', ''k2''], \<lparr>cache = [''k1'', ''k2''], iter = None, searches = 1\<rparr>) \<and>
   iterate_all (shelve_prepare [''k1'', ''k2''])
       \<lparr>cache = [''k1'', ''k2''], iter = None, searches = 1\<rparr>
     = ([''k1'', ''k2'', ''k1'', ''k2''],
        \<lparr>cache = [''k1'', ''k2'', ''k1'', ''k2''], iter = None, searches = 2\<rparr>) \<and>
   iterate_all (mongo_prepare [''k1'', ''k2''])
       \<lparr>cache = [''k1'', ''k2''], iter = None, searches = 1\<rparr>
     = ([''k1'', ''k2''], \<lparr>cache = [''k1'', ''k2''], iter = None, searches = 1\<rparr>)"
  by (simp add: iterate_all_def shelve_prepare_def mongo_prepare_def init_def)

section \<open>Batch fetch (get_many)\<close>

text \<open>
  A generator that has been run to its end: what it yielded, and the exception that
  ended it, if one did.
\<close>

type_synonym 'a consumed = "'a list \<times> error option"

text \<open>
  \<open>BaseStorageAdapter._get_many\<close>, \<open>((pk, self._get(pk)) for pk in keys)\<close>, over
  the shelve backend's \<open>_get\<close>, which is \<open>self.connection[key]\<close>.
\<close>

fun base_get_many :: "pyval dict dict \<Rightarrow> string list \<Rightarrow> (string \<times> pyval dict) consumed" where
  "base_get_many conn [] = ([], None)"
| "base_get_many conn (pk # keys) =
     (case map_of conn pk of
        None \<Rightarrow> ([], Some (KeyError [pk]))
      | Some fs \<Rightarrow>
          (case base_get_many conn keys of
             (ys, raised) \<Rightarrow> ((pk, fs) # ys, raised)))"

text \<open>
  An identifier of a MongoDB record is an \<open>ObjectId\<close>, here the text it prints as,
  or a plain string. \<open>_string_to_object_id\<close> and \<open>_object_id_to_string\<close>; the check
  that the text of an \<open>ObjectId\<close> is well formed belongs to the driver.
\<close>

datatype mongo_id = ObjectId string | PlainId string

definition string_to_object_id :: "string \<Rightarrow> mongo_id" where
  "string_to_object_id key =
     (if take (length ''x-objectid-'') key = ''x-objectid-''
      then (case split key ''x-objectid-'' of
              a # b # rest \<Rightarrow> ObjectId b
            | parts \<Rightarrow> PlainId key)
      else PlainId key)"

fun object_id_to_string :: "mongo_id \<Rightarrow> string" where
  "object_id_to_string (ObjectId h) = ''x-objectid-'' @ h"
| "object_id_to_string (PlainId s) = s"

text \<open>
  The MongoDB backend's \<open>_get_many\<close>. A collection lists its records in natural
  order, each with its \<open>_id\<close>; \<open>find({'_id': {'$in': obj_ids}})\<close> gives the records
  whose \<open>_id\<close> is among \<open>obj_ids\<close>. The error carries \<open>missing_keys\<close>, which the
  message joins with commas.
\<close>

type_synonym collection = "(mongo_id \<times> pyval dict) list"

definition find_in :: "collection \<Rightarrow> mongo_id list \<Rightarrow> collection" where
  "find_in coll obj_ids = filter (\<lambda>(i, fs). i \<in> set obj_ids) coll"

definition mongo_get_many :: "collection \<Rightarrow> string list \<Rightarrow> (string \<times> mongo_id \<times> pyval dict) consumed" where
  "mongo_get_many coll keys =
     (let obj_ids = map string_to_object_id keys;
          results = find_in coll obj_ids;
          yielded = map (\<lambda>(i, fs). (object_id_to_string i, (i, fs))) results;
          found_keys = map fst yielded
      in if length found_keys < length keys
         then (yielded, Some (KeyError (filter (\<lambda>k. k \<notin> set found_keys) keys)))
         else (yielded, None))"

lemma base_get_many_first_missing:
  "\<forall>p \<in> set pre. map_of conn p \<noteq> None \<Longrightarrow> map_of conn k = None \<Longrightarrow>
   base_get_many conn (pre @ k # post)
     = (map (\<lambda>p. (p, case map_of conn p of None \<Rightarrow> [] | Some fs \<Rightarrow> fs)) pre,
        Some (KeyError [k]))"
  by (induction pre) (auto split: option.splits)

lemma found_fewer:
  assumes d: "distinct (map fst coll)" and k: "k \<in> set keys"
    and a: "string_to_object_id k \<notin> fst ` set coll"
  shows "length (find_in coll (map string_to_object_id keys)) < length keys"
proof -
  let ?S = "string_to_object_id ` set keys"
  let ?F = "find_in coll (map string_to_object_id keys)"
  have df: "distinct (map fst ?F)"
    using d by (simp add: find_in_def distinct_map_filter)
  have sub: "set (map fst ?F) \<subseteq> ?S - {string_to_object_id k}"
  proof
    fix i assume "i \<in> set (map fst ?F)"
    then obtain fs where m: "(i, fs) \<in> set coll" "i \<in> ?S"
      by (auto simp: find_in_def)
    then have "i \<in> fst ` set coll" by force
    then have "i \<noteq> string_to_object_id k" using a by blast
    then show "i \<in> ?S - {string_to_object_id k}" using m by simp
  qed
  have "length ?F = card (set (map fst ?F))"
    using df distinct_card [of "map fst ?F"] by simp
  also have "\<dots> \<le> card (?S - {string_to_object_id k})"
    using sub by (intro card_mono) auto
  also have "\<dots> < card ?S"
    using k by (intro psubset_card_mono) auto
  also have "\<dots> \<le> length keys"
    using card_image_le [of "set keys" string_to_object_id] card_length [of keys]
    by simp
  finally show ?thesis .
qed

lemma found_keys_are_present_keys:
  assumes rt: "\<forall>k \<in> set keys. object_id_to_string (string_to_object_id k) = k"
    and k: "k \<in> set keys"
  shows "(k \<in> object_id_to_string ` fst ` set (find_in coll (map string_to_object_id keys)))
       = (string_to_object_id k \<in> fst ` set coll)"
proof
  assume "k \<in> object_id_to_string ` fst ` set (find_in coll (map string_to_object_id keys))"
  then obtain i fs where i: "(i, fs) \<in> set coll" "i \<in> string_to_object_id ` set keys"
      "k = object_id_to_string i"
    by (auto simp: find_in_def)
  then obtain k' where k': "k' \<in> set keys" "i = string_to_object_id k'" by auto
  then have "k = k'" using rt i by simp
  then show "string_to_object_id k \<in> fst ` set coll" using i k' by force
next
  assume "string_to_object_id k \<in> fst ` set coll"
  then obtain fs where "(string_to_object_id k, fs) \<in> set coll" by auto
  then have "(string_to_object_id k, fs) \<in> set (find_in coll (map string_to_object_id keys))"
    using k by (auto simp: find_in_def)
  then have "object_id_to_string (string_to_object_id k)
      \<in> object_id_to_string ` fst ` set (find_in coll (map string_to_object_id keys))"
    by force
  then show "k \<in> object_id_to_string ` fst ` set (find_in coll (map string_to_object_id keys))"
    using rt k by simp
qed

lemma mongo_get_many_names_all_missing:
  assumes d: "distinct (map fst coll)"
    and rt: "\<forall>k \<in> set keys. object_id_to_string (string_to_object_id k) = k"
    and a: "\<exists>k \<in> set keys. string_to_object_id k \<notin> fst ` set coll"
  shows "mongo_get_many coll keys
     = (map (\<lambda>(i, fs). (object_id_to_string i, (i, fs)))
          (find_in coll (map string_to_object_id keys)),
        Some (KeyError (filter (\<lambda>k. string_to_object_id k \<notin> fst ` set coll) keys)))"
proof -
  from a obtain k where k: "k \<in> set keys" "string_to_object_id k \<notin> fst ` set coll" by blast
  have fewer: "length (find_in coll (map string_to_object_id keys)) < length keys"
    using found_fewer [OF d k] .
  let ?Y = "map (\<lambda>(i, fs). (object_id_to_string i, (i, fs)))
          (find_in coll (map string_to_object_id keys))"
  have fk: "set (map fst ?Y)
      = object_id_to_string ` fst ` set (find_in coll (map string_to_object_id keys))"
    by force
  have "filter (\<lambda>k. k \<notin> set (map fst ?Y)) keys
      = filter (\<lambda>k. string_to_object_id k \<notin> fst ` set coll) keys"
    unfolding fk using found_keys_are_present_keys [OF rt]
    by (intro filter_cong) auto
  then show ?thesis using fewer by (simp add: mongo_get_many_def Let_def)
qed


text \<open>
  \<open>BaseStorageAdapter._decorate(key, data, doc_class)\<close>: a class with
  \<open>from_storage\<close> builds the result, any other class (\<open>dict\<close> by default) gives the
  pair of the key and \<open>doc_class(**data)\<close>. The MongoDB backend's \<open>_decorate\<close> takes
  \<open>_id\<close> out of the record first and, given a key, does the same.
\<close>

datatype 'd document_class_arg = DictClass | FromStorage "string \<Rightarrow> pyval dict \<Rightarrow> error + 'd"

datatype 'd decorated = Plain string "pyval dict" | Built 'd

definition decorate :: "'d document_class_arg \<Rightarrow> string \<Rightarrow> pyval dict \<Rightarrow> error + 'd decorated" where
  "decorate cls key fs =
     (case cls of
        DictClass \<Rightarrow> Inr (Plain key fs)
      | FromStorage f \<Rightarrow> (case f key fs of Inl e \<Rightarrow> Inl e | Inr d \<Rightarrow> Inr (Built d)))"

text \<open>
  The generator \<open>get_many\<close> returns,
  \<open>(self._decorate(key, data, doc_class) for key, data in self._get_many(keys))\<close>,
  run to its end over a consumed \<open>_get_many\<close>.
\<close>

fun decorate_each ::
  "'d document_class_arg \<Rightarrow> (string \<times> pyval dict) list \<Rightarrow> error option \<Rightarrow> 'd decorated consumed" where
  "decorate_each cls [] raised = ([], raised)"
| "decorate_each cls ((key, fs) # rest) raised =
     (case decorate cls key fs of
        Inl e \<Rightarrow> ([], Some e)
      | Inr x \<Rightarrow> (case decorate_each cls rest raised of (ys, r) \<Rightarrow> (x # ys, r)))"

text \<open>
  \<open>BaseStorageAdapter.get_many(keys, doc_class)\<close> with a list of string keys: the
  connection test, \<open>keys[0]\<close>, and the generator. Once over the shelve backend with
  the inherited \<open>_get_many\<close>, once over the MongoDB backend with its own.
\<close>

definition get_many ::
  "storage \<Rightarrow> string list \<Rightarrow> 'd document_class_arg \<Rightarrow> error + 'd decorated consumed" where
  "get_many st keys cls =
     (case connection st of
        None \<Rightarrow> Inl RuntimeError
      | Some conn \<Rightarrow>
          (if keys = [] then Inl IndexError
           else Inr (case base_get_many conn keys of
                       (pairs, raised) \<Rightarrow> decorate_each cls pairs raised)))"

definition mongo_get_many_documents ::
  "collection option \<Rightarrow> string list \<Rightarrow> 'd document_class_arg \<Rightarrow> error + 'd decorated consumed" where
  "mongo_get_many_documents connection_state keys cls =
     (case connection_state of
        None \<Rightarrow> Inl RuntimeError
      | Some coll \<Rightarrow>
          (if keys = [] then Inl IndexError
           else Inr (case mongo_get_many coll keys of
                       (pairs, raised) \<Rightarrow>
                         decorate_each cls (map (\<lambda>(key, i, fs). (key, fs)) pairs) raised)))"

definition record_of :: "pyval dict dict \<Rightarrow> string \<Rightarrow> pyval dict" where
  "record_of conn p = (case map_of conn p of None \<Rightarrow> [] | Some fs \<Rightarrow> fs)"

lemma decorate_each_total:
  "\<forall>key fs e. decorate cls key fs \<noteq> Inl e \<Longrightarrow>
   \<exists>ys. decorate_each cls pairs raised = (ys, raised) \<and>
        map Inr ys = map (\<lambda>(key, fs). decorate cls key fs) pairs"
proof (induction pairs)
  case Nil
  then show ?case by simp
next
  case (Cons a pairs)
  obtain key fs where a: "a = (key, fs)" by (cases a)
  from Cons obtain ys where ys: "decorate_each cls pairs raised = (ys, raised)"
    "map Inr ys = map (\<lambda>(key, fs). decorate cls key fs) pairs" by blast
  from Cons.prems obtain x where x: "decorate cls key fs = Inr x"
    by (cases "decorate cls key fs") auto
  show ?case using a ys x by simp
qed

text \<open>
  C2, as the code has it. With the inherited per-key \<open>_get_many\<close> (the shelve
  backend), consuming \<open>get_many\<close> yields the records of the keys before the first
  missing key and then raises a \<open>KeyError\<close> that names that one key. With the MongoDB
  backend's \<open>_get_many\<close>, for keys that \<open>_string_to_object_id\<close> and
  \<open>_object_id_to_string\<close> carry back to themselves and a collection with one record
  per \<open>_id\<close>, it yields every record found, in the collection's order, and then raises
  one \<open>KeyError\<close> that names every missing key. In both, \<open>_decorate\<close> is taken
  not to raise.
\<close>

theorem get_many_missing_keys:
  "(connection st = Some conn \<and> (\<forall>p \<in> set pre. map_of conn p \<noteq> None) \<and>
    map_of conn k = None \<and> (\<forall>key fs e. decorate cls key fs \<noteq> Inl e) \<longrightarrow>
      (\<exists>ys. get_many st (pre @ k # post) cls = Inr (ys, Some (KeyError [k])) \<and>
            map Inr ys = map (\<lambda>p. decorate cls p (record_of conn p)) pre)) \<and>
   (distinct (map fst coll) \<and>
    (\<forall>key \<in> set keys. object_id_to_string (string_to_object_id key) = key) \<and>
    (\<exists>key \<in> set keys. string_to_object_id key \<notin> fst ` set coll) \<and>
    (\<forall>key fs e. decorate cls key fs \<noteq> Inl e) \<longrightarrow>
      (\<exists>ys. mongo_get_many_documents (Some coll) keys cls
              = Inr (ys, Some (KeyError
                  (filter (\<lambda>key. string_to_object_id key \<notin> fst ` set coll) keys))) \<and>
            map Inr ys = map (\<lambda>(i, fs). decorate cls (object_id_to_string i) fs)
                           (find_in coll (map string_to_object_id keys))))"
proof (intro conjI impI)
  assume h: "connection st = Some conn \<and> (\<forall>p \<in> set pre. map_of conn p \<noteq> None) \<and>
    map_of conn k = None \<and> (\<forall>key fs e. decorate cls key fs \<noteq> Inl e)"
  then have b: "base_get_many conn (pre @ k # post)
      = (map (\<lambda>p. (p, record_of conn p)) pre, Some (KeyError [k]))"
    using base_get_many_first_missing [of pre conn k post] by (simp add: record_of_def)
  from h decorate_each_total [of cls "map (\<lambda>p. (p, record_of conn p)) pre" "Some (KeyError [k])"]
  obtain ys where ys: "decorate_each cls (map (\<lambda>p. (p, record_of conn p)) pre) (Some (KeyError [k]))
      = (ys, Some (KeyError [k]))"
    "map Inr ys = map (\<lambda>(key, fs). decorate cls key fs) (map (\<lambda>p. (p, record_of conn p)) pre)"
    by blast
  have "map Inr ys = map (\<lambda>p. decorate cls p (record_of conn p)) pre"
    using ys(2) by (simp add: comp_def)
  then show "\<exists>ys. get_many st (pre @ k # post) cls = Inr (ys, Some (KeyError [k])) \<and>
            map Inr ys = map (\<lambda>p. decorate cls p (record_of conn p)) pre"
    using h b ys(1) by (simp add: get_many_def)
next
  assume h: "distinct (map fst coll) \<and>
    (\<forall>key \<in> set keys. object_id_to_string (string_to_object_id key) = key) \<and>
    (\<exists>key \<in> set keys. string_to_object_id key \<notin> fst ` set coll) \<and>
    (\<forall>key fs e. decorate cls key fs \<noteq> Inl e)"
  let ?F = "find_in coll (map string_to_object_id keys)"
  let ?E = "Some (KeyError (filter (\<lambda>key. string_to_object_id key \<notin> fst ` set coll) keys))"
  from h have m: "mongo_get_many coll keys
      = (map (\<lambda>(i, fs). (object_id_to_string i, (i, fs))) ?F, ?E)"
    using mongo_get_many_names_all_missing [of coll keys] by blast
  have ne: "keys \<noteq> []" using h by auto
  let ?P = "map (\<lambda>(key, i, fs). (key, fs)) (map (\<lambda>(i, fs). (object_id_to_string i, (i, fs))) ?F)"
  from h decorate_each_total [of cls ?P ?E]
  obtain ys where ys: "decorate_each cls ?P ?E = (ys, ?E)"
    "map Inr ys = map (\<lambda>(key, fs). decorate cls key fs) ?P" by blast
  have "map Inr ys = map (\<lambda>(i, fs). decorate cls (object_id_to_string i) fs) ?F"
    using ys(2) by (simp add: comp_def case_prod_unfold)
  then show "\<exists>ys. mongo_get_many_documents (Some coll) keys cls = Inr (ys, ?E) \<and>
            map Inr ys = map (\<lambda>(i, fs). decorate cls (object_id_to_string i) fs) ?F"
    using m ne ys(1) by (simp add: mongo_get_many_documents_def)
qed


definition shelf :: storage where
  "shelf = example_storage\<lparr>connection :=
     Some [(''a'', [(''n'', PInt 1)]), (''b'', [(''n'', PInt 2)])]\<rparr>"

definition note_collection :: collection where
  "note_collection = [(PlainId ''a'', [(''n'', PInt 1)]),
            (ObjectId ''4f1d'', [(''n'', PInt 2)])]"

theorem get_many_missing_keys_witness:
  "get_many shelf [''a'', ''x'', ''b'', ''y''] (DictClass :: unit document_class_arg)
     = Inr ([Plain ''a'' [(''n'', PInt 1)]], Some (KeyError [''x''])) \<and>
   mongo_get_many_documents (Some note_collection) [''x'', ''x-objectid-4f1d'', ''y'', ''a'']
       (DictClass :: unit document_class_arg)
     = Inr ([Plain ''a'' [(''n'', PInt 1)], Plain ''x-objectid-4f1d'' [(''n'', PInt 2)]],
            Some (KeyError [''x'', ''y'']))"
proof -
  have total: "\<forall>key fs e. decorate (DictClass :: unit document_class_arg) key fs \<noteq> Inl e"
    by (simp add: decorate_def)
  have s: "connection shelf = Some [(''a'', [(''n'', PInt 1)]), (''b'', [(''n'', PInt 2)])]"
    by (simp add: shelf_def)
  have ids: "string_to_object_id ''x'' = PlainId ''x''"
    "string_to_object_id ''y'' = PlainId ''y''"
    "string_to_object_id ''a'' = PlainId ''a''"
    "string_to_object_id ''x-objectid-4f1d'' = ObjectId ''4f1d''"
    by (simp_all add: string_to_object_id_def split_def)
  have unmap: "ys = zs" if "map Inr ys = (map Inr zs :: (error + unit decorated) list)"
    for ys zs :: "unit decorated list"
    using that by (simp add: inj_map_eq_map)
  have "\<exists>ys. get_many shelf ([''a''] @ ''x'' # [''b'', ''y''])
        (DictClass :: unit document_class_arg) = Inr (ys, Some (KeyError [''x''])) \<and>
      map Inr ys = map (\<lambda>p. decorate (DictClass :: unit document_class_arg) p
        (record_of [(''a'', [(''n'', PInt 1)]), (''b'', [(''n'', PInt 2)])] p)) [''a'']"
    by (rule mp [OF get_many_missing_keys
          [where st = shelf and conn = "[(''a'', [(''n'', PInt 1)]), (''b'', [(''n'', PInt 2)])]"
            and pre = "[''a'']" and k = "''x''" and post = "[''b'', ''y'']"
            and cls = "DictClass :: unit document_class_arg", THEN conjunct1]])
      (simp add: s total)
  then obtain ys where ys: "get_many shelf ([''a''] @ ''x'' # [''b'', ''y''])
        (DictClass :: unit document_class_arg) = Inr (ys, Some (KeyError [''x'']))"
      "map Inr ys = map (\<lambda>p. decorate (DictClass :: unit document_class_arg) p
        (record_of [(''a'', [(''n'', PInt 1)]), (''b'', [(''n'', PInt 2)])] p)) [''a'']"
    by blast
  have "ys = [Plain ''a'' [(''n'', PInt 1)]]"
    using ys(2) by (intro unmap) (simp add: record_of_def decorate_def)
  then have 1: "get_many shelf [''a'', ''x'', ''b'', ''y''] (DictClass :: unit document_class_arg)
     = Inr ([Plain ''a'' [(''n'', PInt 1)]], Some (KeyError [''x'']))"
    using ys(1) by simp
  have pre2: "distinct (map fst note_collection)"
    "\<forall>key \<in> set [''x'', ''x-objectid-4f1d'', ''y'', ''a''].
       object_id_to_string (string_to_object_id key) = key"
    "\<exists>key \<in> set [''x'', ''x-objectid-4f1d'', ''y'', ''a''].
       string_to_object_id key \<notin> fst ` set note_collection"
    using ids by (simp_all add: note_collection_def)
  have "\<exists>zs. mongo_get_many_documents (Some note_collection)
        [''x'', ''x-objectid-4f1d'', ''y'', ''a''] (DictClass :: unit document_class_arg)
      = Inr (zs, Some (KeyError (filter
          (\<lambda>key. string_to_object_id key \<notin> fst ` set note_collection)
          [''x'', ''x-objectid-4f1d'', ''y'', ''a'']))) \<and>
      map Inr zs = map (\<lambda>(i, fs). decorate (DictClass :: unit document_class_arg)
          (object_id_to_string i) fs)
        (find_in note_collection
          (map string_to_object_id [''x'', ''x-objectid-4f1d'', ''y'', ''a'']))"
    by (rule mp [OF get_many_missing_keys
          [where coll = note_collection and keys = "[''x'', ''x-objectid-4f1d'', ''y'', ''a'']"
            and cls = "DictClass :: unit document_class_arg", THEN conjunct2]])
      (use pre2 total in blast)
  then obtain zs where zs: "mongo_get_many_documents (Some note_collection)
        [''x'', ''x-objectid-4f1d'', ''y'', ''a''] (DictClass :: unit document_class_arg)
      = Inr (zs, Some (KeyError (filter
          (\<lambda>key. string_to_object_id key \<notin> fst ` set note_collection)
          [''x'', ''x-objectid-4f1d'', ''y'', ''a''])))"
      "map Inr zs = map (\<lambda>(i, fs). decorate (DictClass :: unit document_class_arg)
          (object_id_to_string i) fs)
        (find_in note_collection
          (map string_to_object_id [''x'', ''x-objectid-4f1d'', ''y'', ''a'']))"
    by blast
  have "zs = [Plain ''a'' [(''n'', PInt 1)], Plain ''x-objectid-4f1d'' [(''n'', PInt 2)]]"
    using zs(2) ids by (intro unmap) (simp add: note_collection_def find_in_def decorate_def)
  moreover have "filter (\<lambda>key. string_to_object_id key \<notin> fst ` set note_collection)
      [''x'', ''x-objectid-4f1d'', ''y'', ''a''] = [''x'', ''y'']"
    using ids by (simp add: note_collection_def)
  ultimately have 2: "mongo_get_many_documents (Some note_collection)
       [''x'', ''x-objectid-4f1d'', ''y'', ''a''] (DictClass :: unit document_class_arg)
     = Inr ([Plain ''a'' [(''n'', PInt 1)], Plain ''x-objectid-4f1d'' [(''n'', PInt 2)]],
            Some (KeyError [''x'', ''y'']))"
    using zs(1) by simp
  show ?thesis using 1 2 by simp
qed

text \<open>
  C2 as the claim words it fails with the inherited \<open>_get_many\<close>: on an empty shelve
  storage \<open>get_many(['a', 'b'])\<close> raises a \<open>KeyError\<close> that names \<open>a\<close> alone,
  although \<open>b\<close> is missing too; and with \<open>x\<close> missing and \<open>a\<close> present,
  \<open>get_many(['x', 'a'])\<close> ends before the record of \<open>a\<close> is produced.
\<close>

theorem base_get_many_names_first_missing_only:
  "connection example_storage = Some [] \<and>
   map_of ([] :: pyval dict dict) ''a'' = None \<and> map_of ([] :: pyval dict dict) ''b'' = None \<and>
   get_many example_storage [''a'', ''b''] (DictClass :: unit document_class_arg)
     = Inr ([], Some (KeyError [''a''])) \<and>
   get_many shelf [''x'', ''a''] (DictClass :: unit document_class_arg)
     = Inr ([], Some (KeyError [''x'']))"
  by (simp add: get_many_def example_storage_def shelf_def)

section \<open>Fetching, finding and get_or_create (backend_base.py)\<close>

text \<open>
  \<open>Document.__init__(**kw)\<close>: every declared field starts as \<open>None\<close>; each keyword
  is assigned with \<open>__setitem__\<close>, where a \<open>ValidationError\<close> is logged and the field
  left as it is unless the class breaks on invalid incoming data. The closing loop over
  the declared fields calls \<open>_get_related_document_class\<close>, which fails with
  \<open>TypeError\<close> on a field declared by a text reference (\<open>_resolve_model_path\<close> is
  called with one argument of its two).
\<close>

fun init_items :: "document \<Rightarrow> (string \<times> pyval) list \<Rightarrow> error + document" where
  "init_items doc [] = Inr doc"
| "init_items doc ((key, v) # rest) =
     (case setitem doc key v of
        Inr doc' \<Rightarrow> init_items doc' rest
      | Inl (ValidationError c f x) \<Rightarrow>
          (if break_on_invalid_incoming_data (meta doc) then Inl (ValidationError c f x)
           else init_items doc rest)
      | Inl e \<Rightarrow> Inl e)"

definition is_text_reference :: "decl_type \<Rightarrow> bool" where
  "is_text_reference t = (case t of TRef path \<Rightarrow> True | _ \<Rightarrow> False)"

definition document_init :: "pyclass \<times> metadata \<Rightarrow> (string \<times> pyval) list \<Rightarrow> error + document" where
  "document_init cls kw =
     (case init_items
         \<lparr>doc_class = fst cls, meta = snd cls,
          data = map (\<lambda>(name, t). (name, PNone)) (doc_structure (snd cls)),
          state = empty_state\<rparr> kw of
        Inl e \<Rightarrow> Inl e
      | Inr doc \<Rightarrow>
          (if list_ex (\<lambda>(name, t). is_text_reference t) (doc_structure (snd cls))
           then Inl TypeError else Inr doc))"

text \<open>\<open>ConverterManager.from_db\<close> behind \<open>storage.value_from_db\<close>.\<close>

definition value_from_db :: "storage \<Rightarrow> decl_type \<Rightarrow> pyval \<Rightarrow> error + pyval" where
  "value_from_db st t v =
     (case t of
        TRef path \<Rightarrow> Inr v
      | TClass c \<Rightarrow>
          (case pick_processor (converter_manager st) (Class c) of
             Inl e \<Rightarrow> Inl e
           | Inr p \<Rightarrow> from_db p v)
      | TMany c \<Rightarrow>
          (case pick_processor (converter_manager st) (Many c) of
             Inl e \<Rightarrow> Inl e
           | Inr p \<Rightarrow> from_db p v))"

text \<open>
  \<open>Document.from_storage(storage, key, data)\<close>: the loop over the declared fields,
  where a \<open>ValueError\<close> of the conversion leaves the raw value unless the class breaks
  on invalid incoming data, then the constructor and the saved state.
\<close>

fun pythonize :: "metadata \<Rightarrow> storage \<Rightarrow> pyval dict \<Rightarrow> decl_type dict \<Rightarrow> error + pyval dict" where
  "pythonize m st raw [] = Inr []"
| "pythonize m st raw ((name, t) # rest) =
     (let v = (case map_of raw name of None \<Rightarrow> PNone | Some x \<Rightarrow> x);
          converted = (if name \<in> set (skip_type_conversion m) then Inr v
                       else value_from_db st t v)
      in case (case converted of
                 Inl ValueError \<Rightarrow>
                   (if break_on_invalid_incoming_data m then Inl ValueError else Inr v)
               | Inl e \<Rightarrow> Inl e
               | Inr x \<Rightarrow>
                   Inr (case map_of (incoming_processors m) name of
                          None \<Rightarrow> x
                        | Some f \<Rightarrow> if x \<noteq> PNone then f x else x)) of
           Inl e \<Rightarrow> Inl e
         | Inr x \<Rightarrow>
             (case pythonize m st raw rest of
                Inl e \<Rightarrow> Inl e
              | Inr others \<Rightarrow> Inr ((name, x) # others)))"

definition from_storage ::
  "world \<Rightarrow> pyclass \<times> metadata \<Rightarrow> nat \<Rightarrow> string \<Rightarrow> pyval dict \<Rightarrow> error + document" where
  "from_storage w cls sid key raw =
     (case w sid of
        None \<Rightarrow> Inl AttributeError
      | Some st \<Rightarrow>
          (case (if doc_structure (snd cls) \<noteq> []
                 then pythonize (snd cls) st raw (doc_structure (snd cls))
                 else Inr raw) of
             Inl e \<Rightarrow> Inl e
           | Inr pythonized \<Rightarrow>
               (case document_init cls pythonized of
                  Inl e \<Rightarrow> Inl e
                | Inr instance_made \<Rightarrow>
                    Inr (instance_made\<lparr>state :=
                      update_saved_state w (state instance_made) (Some sid) (Some key) (Some raw)\<rparr>))))"

text \<open>
  \<open>BaseStorageAdapter.get(key, doc_class)\<close> for a document class, over the shelve
  backend's \<open>_get\<close>.
\<close>

definition storage_get :: "world \<Rightarrow> nat \<Rightarrow> pyclass \<times> metadata \<Rightarrow> string \<Rightarrow> error + document" where
  "storage_get w sid cls key =
     (case w sid of
        None \<Rightarrow> Inl AttributeError
      | Some st \<Rightarrow>
          (case connection st of
             None \<Rightarrow> Inl RuntimeError
           | Some conn \<Rightarrow>
               (case map_of conn key of
                  None \<Rightarrow> Inl (KeyError [key])
                | Some raw \<Rightarrow> from_storage w cls sid key raw)))"

text \<open>
  \<open>BaseStorageAdapter.find(doc_class, **conditions)\<close>: a new query adapter, then
  \<open>where\<close>. No validator of the modelled metadata provides \<open>filter_query\<close>, so
  \<open>contribute_to_query\<close> returns the query as it is.
\<close>

definition find :: "world \<Rightarrow> nat \<Rightarrow> pyclass \<times> metadata \<Rightarrow> (string \<times> pyval) list \<Rightarrow> error + query" where
  "find w sid cls conds =
     (case w sid of
        None \<Rightarrow> Inl AttributeError
      | Some st \<Rightarrow>
          (if connection st = None then Inl RuntimeError
           else query_where w
                  \<lparr>storage_ref = sid, query_class = cls, conditions = [], ordering = None\<rparr>
                  conds))"

text \<open>
  \<open>QueryAdapter.count\<close>, \<open>len(list(self._do_search()))\<close>, and \<open>query[0]\<close>.
  Modelled from the spec: indexing belongs to \<open>CachedIterator\<close>, which is not among the
  sources; \<open>query[0]\<close> is the first element of the iteration, that is
  \<open>_prepare_item\<close> (\<open>storage.get\<close>) of the first key found, and \<open>IndexError\<close> when
  nothing is found.
\<close>

definition count :: "world \<Rightarrow> query \<Rightarrow> error + nat" where
  "count w q =
     (case w (storage_ref q) of
        None \<Rightarrow> Inl AttributeError
      | Some st \<Rightarrow>
          (case connection st of
             None \<Rightarrow> Inl TypeError
           | Some conn \<Rightarrow> Inr (length (do_search conn q))))"

definition first_item :: "world \<Rightarrow> query \<Rightarrow> error + document" where
  "first_item w q =
     (case w (storage_ref q) of
        None \<Rightarrow> Inl AttributeError
      | Some st \<Rightarrow>
          (case connection st of
             None \<Rightarrow> Inl TypeError
           | Some conn \<Rightarrow>
               (case do_search conn q of
                  [] \<Rightarrow> Inl IndexError
                | pk # rest \<Rightarrow> storage_get w (storage_ref q) (query_class q) pk)))"

text \<open>\<open>BaseStorageAdapter.get_or_create(doc_class, **conditions)\<close>.\<close>

definition get_or_create ::
  "world \<Rightarrow> nat \<Rightarrow> pyclass \<times> metadata \<Rightarrow> (string \<times> pyval) list
    \<Rightarrow> error + (world \<times> document \<times> bool)" where
  "get_or_create w sid cls conds =
     (if conds = [] then Inl AssertionError
      else case find w sid cls [] of
        Inl e \<Rightarrow> Inl e
      | Inr q0 \<Rightarrow>
     (case query_where w q0 conds of
        Inl e \<Rightarrow> Inl e
      | Inr q \<Rightarrow>
     (case count w q of
        Inl e \<Rightarrow> Inl e
      | Inr n \<Rightarrow>
          (if n \<noteq> 0
           then (case first_item w q of
                   Inl e \<Rightarrow> Inl e
                 | Inr found \<Rightarrow> Inr (w, found, False))
           else (case document_init cls conds of
                   Inl e \<Rightarrow> Inl e
                 | Inr obj \<Rightarrow>
                     (case document_save w obj (Some sid) False of
                        Inl e \<Rightarrow> Inl e
                      | Inr (w', obj', key) \<Rightarrow> Inr (w', obj', True)))))))"


lemma init_items_frame:
  "init_items d kw = Inr d' \<Longrightarrow> state d' = state d \<and> meta d' = meta d"
proof (induction kw arbitrary: d)
  case Nil
  then show ?case by simp
next
  case (Cons a kw)
  obtain key v where a: "a = (key, v)" by (cases a)
  show ?case
  proof (cases "setitem d key v")
    case (Inr d1)
    then have "init_items d1 kw = Inr d'" using Cons.prems a by simp
    from Cons.IH [OF this] setitem_frame [OF Inr] show ?thesis by simp
  next
    case (Inl e)
    then have "init_items d kw = Inr d'"
      using Cons.prems a by (cases e) (auto split: if_splits)
    from Cons.IH [OF this] show ?thesis .
  qed
qed

lemma document_init_state:
  "document_init cls kw = Inr d \<Longrightarrow> state d = empty_state \<and> meta d = snd cls"
  by (auto simp: document_init_def split: sum.splits if_splits dest!: init_items_frame)

lemma value_to_db_cong:
  "converter_manager st' = converter_manager st \<Longrightarrow> value_to_db st' = value_to_db st"
  by (rule ext) (simp add: value_to_db_def)

lemma get_native_conditions_cong:
  "lookup_manager st' = lookup_manager st \<Longrightarrow> converter_manager st' = converter_manager st \<Longrightarrow>
   get_native_conditions st' conds negate = get_native_conditions st conds negate"
proof -
  assume l: "lookup_manager st' = lookup_manager st"
    and c: "converter_manager st' = converter_manager st"
  have v: "value_to_db st' = value_to_db st" using c by (rule value_to_db_cong)
  show ?thesis
    by (induction conds) (auto simp: v l split: sum.splits prod.splits)
qed

lemma get_or_create_unfolded:
  assumes "w sid = Some st" "connection st = Some conn" "conds \<noteq> []"
    "get_native_conditions st conds False = Inr cs"
  shows "get_or_create w sid cls conds =
    (case do_search conn \<lparr>storage_ref = sid, query_class = cls, conditions = cs, ordering = None\<rparr> of
       pk # rest \<Rightarrow>
         (case storage_get w sid cls pk of
            Inl e \<Rightarrow> Inl e
          | Inr found \<Rightarrow> Inr (w, found, False))
     | [] \<Rightarrow>
         (case document_init cls conds of
            Inl e \<Rightarrow> Inl e
          | Inr obj \<Rightarrow>
              (case document_save w obj (Some sid) False of
                 Inl e \<Rightarrow> Inl e
               | Inr (w', obj', key) \<Rightarrow> Inr (w', obj', True))))"
proof -
  have f: "find w sid cls [] = Inr \<lparr>storage_ref = sid, query_class = cls, conditions = [],
            ordering = None\<rparr>"
    using assms(1,2) by (simp add: find_def query_where_def where_method_def
        private_where_def clone_def)
  have q: "query_where w \<lparr>storage_ref = sid, query_class = cls, conditions = [],
            ordering = None\<rparr> conds
         = Inr \<lparr>storage_ref = sid, query_class = cls, conditions = cs, ordering = None\<rparr>"
    using assms(1,4) by (simp add: query_where_def where_method_def private_where_def clone_def)
  show ?thesis
    using assms(1,2,3)
    by (simp add: get_or_create_def f q count_def first_item_def split: list.splits)
qed

lemma storage_get_state:
  assumes "storage_get w sid cls k = Inr d" "k \<noteq> []"
  shows "ss_storage (state d) = Some sid \<and> ss_key (state d) = Some k"
proof -
  from assms obtain st conn raw where s: "w sid = Some st" "connection st = Some conn"
      "map_of conn k = Some raw" "from_storage w cls sid k raw = Inr d"
    by (auto simp: storage_get_def split: option.splits)
  then have t: "storage_truthy w (Some sid)" by (simp add: storage_truthy_def)
  from s(4) s(1) obtain i where "d = i\<lparr>state :=
      update_saved_state w (state i) (Some sid) (Some k) (Some raw)\<rparr>"
    by (auto simp: from_storage_def split: sum.splits)
  then show ?thesis using t assms(2) by (simp add: update_saved_state_def key_truthy_def)
qed

lemma first_save_on_empty:
  assumes "w sid = Some st" "connection st = Some []"
    "document_init cls conds = Inr obj"
    "document_save w obj (Some sid) False = Inr (w1, d1, k)"
  shows "\<exists>st1 fs. w1 = w(sid \<mapsto> st1) \<and> connection st1 = Some [(k, fs)] \<and> k \<noteq> [] \<and>
      lookup_manager st1 = lookup_manager st \<and> converter_manager st1 = converter_manager st \<and>
      ss_storage (state d1) = Some sid \<and> ss_key (state d1) = Some k"
proof -
  have tgt: "target_storage w obj (Some sid) = Inr sid"
    using assms(1,2) by (simp add: target_storage_def storage_truthy_def)
  have es: "state obj = empty_state" using document_init_state [OF assms(3)] by simp
  from document_save_steps [OF assms(4)] obtain t st0 o1 dat st1 where
    st: "target_storage w obj (Some sid) = Inr t" "w t = Some st0"
      "fill_defaults obj (defaults (meta obj)) = Inr o1"
      "storage_save st0 (primary_key_for o1 t False) dat = Inr (st1, k)"
      "w1 = w(t \<mapsto> st1)"
      "d1 = o1\<lparr>state := \<lparr>ss_storage = Some t, ss_key = Some k, ss_data = Some dat\<rparr>\<rparr>"
    by blast
  have t: "t = sid" "st0 = st" using st(1,2) tgt assms(1) by simp_all
  have sv: "storage_save st (primary_key_for o1 sid False) dat = Inr (st1, k)"
    using st(4) t by simp
  have w1: "w1 = w(sid \<mapsto> st1)" using st(5) t by simp
  have sd: "state d1 = \<lparr>ss_storage = Some sid, ss_key = Some k, ss_data = Some dat\<rparr>"
    using st(6) t by simp
  from storage_save_frame [OF sv] assms(2) obtain out where
    "connection st1 = Some [(k, out)]" "lookup_manager st1 = lookup_manager st"
    "converter_manager st1 = converter_manager st"
    by auto
  moreover have "k \<noteq> []" using storage_save_connected [OF sv] by simp
  ultimately show ?thesis using w1 sd by auto
qed


lemma do_search_single:
  "do_search [(k, fs)] \<lparr>storage_ref = sid, query_class = cls, conditions = cs, ordering = None\<rparr>
     = (if list_all (\<lambda>check. check fs) cs then [k] else [])"
  by (simp add: do_search_def finder_def)

text \<open>
  C9, as the code has it, for a connected storage and conditions that are not empty and
  translate to the native checks \<open>cs\<close>. If the search finds a record,
  \<open>get_or_create\<close> returns the document fetched for the first key found, with
  \<open>created = False\<close>, and leaves the storage as it is. If it finds none, it constructs a
  document from the conditions, saves it to the storage and returns it with
  \<open>created = True\<close>. On an empty storage a successful call therefore has
  \<open>created = True\<close> and leaves exactly one record, under the key of the returned
  document; and if that written record passes every check of the conditions, a second
  call with the same conditions fetches that key and returns it with
  \<open>created = False\<close>, a document equal to the first under the saved-state equality.
\<close>

theorem get_or_create_cases:
  assumes "w sid = Some st" "connection st = Some conn" "conds \<noteq> []"
    "get_native_conditions st conds False = Inr cs"
  shows
   "(do_search conn \<lparr>storage_ref = sid, query_class = cls, conditions = cs, ordering = None\<rparr>
       = pk # rest \<longrightarrow>
      get_or_create w sid cls conds =
        (case storage_get w sid cls pk of
           Inl e \<Rightarrow> Inl e
         | Inr found \<Rightarrow> Inr (w, found, False))) \<and>
    (do_search conn \<lparr>storage_ref = sid, query_class = cls, conditions = cs, ordering = None\<rparr>
       = [] \<longrightarrow>
      get_or_create w sid cls conds =
        (case document_init cls conds of
           Inl e \<Rightarrow> Inl e
         | Inr obj \<Rightarrow>
             (case document_save w obj (Some sid) False of
                Inl e \<Rightarrow> Inl e
              | Inr (w', obj', key) \<Rightarrow> Inr (w', obj', True)))) \<and>
    (conn = [] \<and> get_or_create w sid cls conds = Inr (w1, d1, created) \<longrightarrow>
      created \<and>
      (\<exists>st1 k fs.
         w1 = w(sid \<mapsto> st1) \<and> connection st1 = Some [(k, fs)] \<and>
         ss_storage (state d1) = Some sid \<and> ss_key (state d1) = Some k \<and>
         (list_all (\<lambda>check. check fs) cs \<longrightarrow>
            get_or_create w1 sid cls conds =
              (case storage_get w1 sid cls k of
                 Inl e \<Rightarrow> Inl e
               | Inr found \<Rightarrow> Inr (w1, found, False)) \<and>
            (\<forall>found. storage_get w1 sid cls k = Inr found \<longrightarrow>
               state_eq w1 (state d1) (state found)))))"
proof (intro conjI impI)
  let ?Q = "\<lparr>storage_ref = sid, query_class = cls, conditions = cs, ordering = None\<rparr>"
  note u = get_or_create_unfolded [where w = w and sid = sid and cls = cls, OF assms]
  show "get_or_create w sid cls conds =
        (case storage_get w sid cls pk of
           Inl e \<Rightarrow> Inl e
         | Inr found \<Rightarrow> Inr (w, found, False))"
    if "do_search conn ?Q = pk # rest"
    using u that by simp
  show "get_or_create w sid cls conds =
        (case document_init cls conds of
           Inl e \<Rightarrow> Inl e
         | Inr obj \<Rightarrow>
             (case document_save w obj (Some sid) False of
                Inl e \<Rightarrow> Inl e
              | Inr (w', obj', key) \<Rightarrow> Inr (w', obj', True)))"
    if "do_search conn ?Q = []"
    using u that by simp
  assume h: "conn = [] \<and> get_or_create w sid cls conds = Inr (w1, d1, created)"
  have empty: "do_search conn ?Q = []" using h by (simp add: do_search_def finder_def)
  from u empty h obtain obj k where
    obj: "document_init cls conds = Inr obj"
    and sv: "document_save w obj (Some sid) False = Inr (w1, d1, k)"
    and cr: "created"
    by (auto split: sum.splits)
  show "created" by (rule cr)
  have c0: "connection st = Some []" using assms(2) h by simp
  from first_save_on_empty [where w = w and sid = sid, OF assms(1) c0 obj sv] obtain st1 fs where
    s1: "w1 = w(sid \<mapsto> st1)" "connection st1 = Some [(k, fs)]" "k \<noteq> []"
      "lookup_manager st1 = lookup_manager st" "converter_manager st1 = converter_manager st"
      "ss_storage (state d1) = Some sid" "ss_key (state d1) = Some k"
    by blast
  have w1: "w1 sid = Some st1" using s1(1) by simp
  have cs1: "get_native_conditions st1 conds False = Inr cs"
    using get_native_conditions_cong [OF s1(4,5)] assms(4) by simp
  note u1 = get_or_create_unfolded [where w = w1 and sid = sid and cls = cls,
      OF w1 s1(2) assms(3) cs1]
  have second: "get_or_create w1 sid cls conds =
              (case storage_get w1 sid cls k of
                 Inl e \<Rightarrow> Inl e
               | Inr found \<Rightarrow> Inr (w1, found, False))"
    if "list_all (\<lambda>check. check fs) cs"
    using u1 that by (simp add: do_search_single)
  have same: "state_eq w1 (state d1) (state found)"
    if "storage_get w1 sid cls k = Inr found" for found
  proof -
    have t: "storage_truthy w1 (Some sid)"
      using w1 s1(2) by (simp add: storage_truthy_def)
    from storage_get_state [OF that s1(3)] t s1(3,6,7) show ?thesis
      by (simp add: state_eq_def state_nonzero_def key_truthy_def)
  qed
  show "\<exists>st1 k fs.
         w1 = w(sid \<mapsto> st1) \<and> connection st1 = Some [(k, fs)] \<and>
         ss_storage (state d1) = Some sid \<and> ss_key (state d1) = Some k \<and>
         (list_all (\<lambda>check. check fs) cs \<longrightarrow>
            get_or_create w1 sid cls conds =
              (case storage_get w1 sid cls k of
                 Inl e \<Rightarrow> Inl e
               | Inr found \<Rightarrow> Inr (w1, found, False)) \<and>
            (\<forall>found. storage_get w1 sid cls k = Inr found \<longrightarrow>
               state_eq w1 (state d1) (state found)))"
    using s1(1,2,6,7) second same by blast
qed

definition contact_class :: "pyclass \<times> metadata" where
  "contact_class = (PyClass ''Contact'' [''Document'', ''object''],
     example_meta\<lparr>doc_structure := [(''email'', TClass unicode_class)]\<rparr>)"

lemmas get_or_create_evaluation =
  get_or_create_def find_def query_where_def where_method_def private_where_def clone_def
  parse_lookup_def contains_def split_def get_lookup_def equals_lookup_def count_def
  first_item_def do_search_def finder_def document_init_def storage_get_def from_storage_def
  value_from_db_def contact_class_def is_text_reference_def

definition after_first :: world where
  "after_first = example_world(0 \<mapsto> example_storage\<lparr>
     connection := Some [(''u0'', [(''email'', PUni ''x@y.com'')])], uid_next := Suc 0\<rparr>)"

definition created_contact :: document where
  "created_contact = \<lparr>doc_class = fst contact_class, meta = snd contact_class,
     data = [(''email'', PUni ''x@y.com'')],
     state = \<lparr>ss_storage = Some 0, ss_key = Some ''u0'',
              ss_data = Some [(''email'', PUni ''x@y.com'')]\<rparr>\<rparr>"

theorem get_or_create_cases_witness:
  "get_or_create example_world 0 contact_class [(''email'', PUni ''x@y.com'')]
     = Inr (after_first, created_contact, True) \<and>
   get_or_create after_first 0 contact_class [(''email'', PUni ''x@y.com'')]
     = Inr (after_first, created_contact, False) \<and>
   storage_get after_first 0 contact_class ''u0'' = Inr created_contact \<and>
   state_eq after_first (state created_contact) (state created_contact)"
proof -
  have first: "get_or_create example_world 0 contact_class [(''email'', PUni ''x@y.com'')]
     = Inr (after_first, created_contact, True)"
    by (simp add: after_first_def created_contact_def get_or_create_evaluation save_evaluation
        default_evaluation)
  have second: "get_or_create after_first 0 contact_class [(''email'', PUni ''x@y.com'')]
     = Inr (after_first, created_contact, False)"
    by (simp add: after_first_def created_contact_def get_or_create_evaluation save_evaluation
        default_evaluation)
  have fetched: "storage_get after_first 0 contact_class ''u0'' = Inr created_contact"
    by (simp add: after_first_def created_contact_def get_or_create_evaluation save_evaluation
        default_evaluation)
  have pre: "example_world 0 = Some example_storage" "connection example_storage = Some []"
    "[(''email'', PUni ''x@y.com'')] \<noteq> []"
    "get_native_conditions example_storage [(''email'', PUni ''x@y.com'')] False
       = Inr (equals_lookup ''email'' (PUni ''x@y.com'') (value_to_db example_storage) False)"
    by (simp_all add: example_world_def example_storage_def parse_lookup_def contains_def
        split_def get_lookup_def)
  from get_or_create_cases [where w = example_world and sid = 0 and cls = contact_class
      and ?w1.0 = after_first and ?d1.0 = created_contact and created = True, OF pre] first
  obtain st1 k fs where
    r: "after_first = example_world(0 \<mapsto> st1)" "connection st1 = Some [(k, fs)]"
      "ss_key (state created_contact) = Some k"
      "list_all (\<lambda>check. check fs)
          (equals_lookup ''email'' (PUni ''x@y.com'') (value_to_db example_storage) False) \<longrightarrow>
        (\<forall>found. storage_get after_first 0 contact_class k = Inr found \<longrightarrow>
           state_eq after_first (state created_contact) (state found))"
    by blast
  have k: "k = ''u0''" using r(3) by (simp add: created_contact_def)
  have "after_first 0 = Some st1" by (subst r(1)) simp
  then have "st1 = example_storage\<lparr>
     connection := Some [(''u0'', [(''email'', PUni ''x@y.com'')])], uid_next := Suc 0\<rparr>"
    by (simp add: after_first_def)
  then have fs: "fs = [(''email'', PUni ''x@y.com'')]" using r(2) by simp
  have "list_all (\<lambda>check. check fs)
          (equals_lookup ''email'' (PUni ''x@y.com'') (value_to_db example_storage) False)"
    by (simp add: fs equals_lookup_def value_to_db_def pick_processor_def get_processor_def
        example_storage_def identity_converter_def mro_def unicode_class_def)
  then have "state_eq after_first (state created_contact) (state created_contact)"
    using r(4) fetched k by blast
  then show ?thesis using first second fetched by simp
qed

text \<open>
  C9 as the claim words it fails for conditions that the constructed document does not
  keep. For a class whose \<open>email\<close> field is declared \<open>unicode\<close>,
  \<open>get_or_create(Contact, email=5)\<close> on an empty storage logs the validation error of
  the constructor, saves a record with \<open>email = None\<close> and returns \<open>created = True\<close>;
  the same call again finds no record with \<open>email = 5\<close>, saves a second record and
  returns \<open>created = True\<close> again, with another key.
\<close>

theorem get_or_create_creates_twice:
  "(\<exists>d1 d2.
      get_or_create example_world 0 contact_class [(''email'', PInt 5)]
        = Inr (example_world(0 \<mapsto> example_storage\<lparr>
                 connection := Some [(''u0'', [(''email'', PNone)])], uid_next := Suc 0\<rparr>),
               d1, True) \<and>
      get_or_create
          (example_world(0 \<mapsto> example_storage\<lparr>
             connection := Some [(''u0'', [(''email'', PNone)])], uid_next := Suc 0\<rparr>))
          0 contact_class [(''email'', PInt 5)]
        = Inr (example_world(0 \<mapsto> example_storage\<lparr>
                 connection := Some [(''u0'', [(''email'', PNone)]), (''u1'', [(''email'', PNone)])],
                 uid_next := Suc (Suc 0)\<rparr>),
               d2, True) \<and>
      ss_key (state d1) = Some ''u0'' \<and> ss_key (state d2) = Some ''u1'')"
  by (simp add: get_or_create_evaluation save_evaluation default_evaluation int_class_def)

end
